theory Spec2Isabelle
  imports Main
begin

section \<open>JavaScript values\<close>

text \<open>
  The values that reach the handlers of \<^verbatim>\<open>admin.js\<close> from data attributes and JSON
  responses. A missing field or attribute reads as \<open>Undefined\<close>.
\<close>

datatype jsval = Undefined | Null | Bool bool | Num int | Str string

datatype js_error = TypeError

definition digit_char :: "nat \<Rightarrow> char" where
  "digit_char n = ''0123456789'' ! (n mod 10)"

fun show_nat :: "nat \<Rightarrow> string" where
  "show_nat n = (if n < 10 then [digit_char n] else show_nat (n div 10) @ [digit_char n])"

declare show_nat.simps [simp del]

definition show_int :: "int \<Rightarrow> string" where
  "show_int i = (if i < 0 then ''-'' @ show_nat (nat (- i)) else show_nat (nat i))"

text \<open>
  The number that a string of decimal digits writes: what reading the output of
  \<open>show_nat\<close> back gives.
\<close>

definition digit_value :: "char \<Rightarrow> nat" where
  "digit_value c = of_char c - 48"

definition decimal_value :: "string \<Rightarrow> nat" where
  "decimal_value s = foldl (\<lambda>a c. 10 * a + digit_value c) 0 s"

text \<open>What a template literal \<^verbatim>\<open>${v}\<close> or \<^verbatim>\<open>'...' + v\<close> inserts for \<open>v\<close>.\<close>

fun to_string :: "jsval \<Rightarrow> string" where
  "to_string Undefined = ''undefined''"
| "to_string Null = ''null''"
| "to_string (Bool b) = (if b then ''true'' else ''false'')"
| "to_string (Num i) = show_int i"
| "to_string (Str s) = s"

text \<open>The test of \<^verbatim>\<open>if (v)\<close>.\<close>

fun truthy :: "jsval \<Rightarrow> bool" where
  "truthy Undefined = False"
| "truthy Null = False"
| "truthy (Bool b) = b"
| "truthy (Num i) = (i \<noteq> 0)"
| "truthy (Str s) = (s \<noteq> [])"

text \<open>\<^verbatim>\<open>toUpperCase\<close> on the ASCII letters (a \<open>string\<close> here is a list of bytes).\<close>

definition upper_char :: "char \<Rightarrow> char" where
  "upper_char c =
     (case map_of (zip ''abcdefghijklmnopqrstuvwxyz'' ''ABCDEFGHIJKLMNOPQRSTUVWXYZ'') c of
        None \<Rightarrow> c | Some u \<Rightarrow> u)"

text \<open>\<^verbatim>\<open>v.toUpperCase()\<close>: a method of strings only; on any other value the call throws.\<close>

fun toUpperCase :: "jsval \<Rightarrow> js_error + string" where
  "toUpperCase (Str s) = Inr (map upper_char s)"
| "toUpperCase v = Inl TypeError"

section \<open>The page\<close>

text \<open>
  The content of an element: set by \<^verbatim>\<open>.text(s)\<close> (plain text) or by \<^verbatim>\<open>.html(h)\<close> (markup).
  \<^verbatim>\<open>.text()\<close> reads the text of the content, which for markup is what is left outside the tags.
\<close>

datatype content = Text string | Html string

fun strip_tags :: "bool \<Rightarrow> string \<Rightarrow> string" where
  "strip_tags in_tag [] = []"
| "strip_tags in_tag (c # cs) =
     (if in_tag then (if c = CHR ''>'' then strip_tags False cs else strip_tags True cs)
      else if c = CHR ''<'' then strip_tags True cs
      else c # strip_tags False cs)"

fun text_of :: "content \<Rightarrow> string" where
  "text_of (Text s) = s"
| "text_of (Html h) = strip_tags False h"

record toast =
  toast_id :: string
  toast_title :: string
  toast_message :: string
  toast_type :: string
  shown :: bool

record request =
  url :: string
  req_type :: string
  data :: "(string \<times> string) list"

text \<open>The \<^verbatim>\<open>.update-status\<close> select of an order row, with its data attributes.\<close>

record select_elem =
  sel_options :: "string list"
  sel_value :: "string option"
  data_order_id :: jsval
  data_original_status :: jsval

text \<open>A \<^verbatim>\<open>.toggle-active\<close> or \<^verbatim>\<open>.toggle-approval\<close> checkbox with its id attribute.\<close>

record checkbox_elem =
  checked :: bool
  data_id :: jsval

record badge =
  classes :: "string list"
  badge_text :: string

record bulk_checkbox =
  bulk_checked :: bool
  bulk_value :: string

text \<open>
  The state the handlers read and write. \<open>toastContainer\<close> is \<open>None\<close> until the first
  toast creates \<^verbatim>\<open>#toastContainer\<close>; \<open>badges\<close> is the lookup of a badge by element id;
  \<open>requests\<close>, \<open>confirms\<close>, \<open>console\<close> and \<open>downloads\<close> record, in order, the requests issued,
  the \<^verbatim>\<open>confirm\<close> prompts shown, the lines logged and the files offered for download.
\<close>

record page =
  toastContainer :: "toast list option"
  requests :: "request list"
  status_select :: select_elem
  status_text :: content
  badges :: "string \<rightharpoonup> badge"
  user_toggle :: checkbox_elem
  review_toggle :: checkbox_elem
  stat_orders :: string
  stat_revenue :: string
  stat_avg_order :: string
  stat_customers :: string
  bulk_selects :: "bulk_checkbox list"
  confirms :: "string list"
  console :: "(string \<times> string list) list"
  downloads :: "string list"
  html_theme :: "string option"
  localStorage :: "string \<rightharpoonup> string"

definition toasts_of :: "page \<Rightarrow> toast list" where
  "toasts_of p = (case toastContainer p of None \<Rightarrow> [] | Some ts \<Rightarrow> ts)"

section \<open>Toast notifications\<close>

text \<open>
  \<^verbatim>\<open>document.getElementById(toastId)\<close> followed by \<^verbatim>\<open>new bootstrap.Toast(el).show()\<close>: the
  first element with that id, in document order, is the one shown.
\<close>

fun getElementById_show :: "string \<Rightarrow> toast list \<Rightarrow> toast list" where
  "getElementById_show i [] = []"
| "getElementById_show i (t # ts) =
     (if toast_id t = i then t\<lparr>shown := True\<rparr> # ts else t # getElementById_show i ts)"

text \<open>
  \<^verbatim>\<open>showToast(title, message, type)\<close>; \<open>now\<close> is what \<^verbatim>\<open>Date.now()\<close> returns during the call
  (milliseconds since the epoch).
\<close>

definition showToast :: "int \<Rightarrow> string \<Rightarrow> jsval \<Rightarrow> string \<Rightarrow> page \<Rightarrow> page" where
  "showToast now title message type p =
     (let container = toasts_of p;
          toastId = ''toast-'' @ show_int now;
          toastHtml = \<lparr>toast_id = toastId, toast_title = title,
                       toast_message = to_string message, toast_type = type, shown = False\<rparr>
      in p\<lparr>toastContainer := Some (getElementById_show toastId (container @ [toastHtml]))\<rparr>)"

text \<open>
  Between the pages \<open>p\<close> and \<open>p'\<close> exactly one toast was added, last in the container,
  with this title, message and type.
\<close>

definition notified :: "page \<Rightarrow> page \<Rightarrow> string \<Rightarrow> string \<Rightarrow> string \<Rightarrow> bool" where
  "notified p p' title msg ty =
     (map toast_title (toasts_of p') = map toast_title (toasts_of p) @ [title] \<and>
      map toast_message (toasts_of p') = map toast_message (toasts_of p) @ [msg] \<and>
      map toast_type (toasts_of p') = map toast_type (toasts_of p) @ [ty])"

section \<open>Requests and the receiver of their callbacks\<close>

text \<open>
  How a request ends: with a response (the \<^verbatim>\<open>success\<close> callback runs on it) or with a
  failure (the \<^verbatim>\<open>error\<close> callback runs on the error text, its third argument).
\<close>

datatype 'r ajax_outcome = Ajax_success 'r | Ajax_error string

text \<open>
  The callbacks are written \<^verbatim>\<open>function(response) { ... $(this) ... }\<close>: ordinary functions,
  whose \<^verbatim>\<open>this\<close> is chosen by the caller. \<open>This_element\<close> is the control whose handler
  issued the request; \<open>This_settings\<close> is the settings object of the request.
\<close>

datatype this_binding = This_element | This_settings

text \<open>
  \<^verbatim>\<open>$.ajax\<close> calls \<^verbatim>\<open>success\<close> and \<^verbatim>\<open>error\<close> with \<^verbatim>\<open>this\<close> bound to the \<^verbatim>\<open>context\<close> option
  when the settings have one, and to the settings object itself otherwise. No call of
  \<^verbatim>\<open>admin.js\<close> passes \<^verbatim>\<open>context\<close>.
\<close>

definition ajax_callback_this :: "this_binding option \<Rightarrow> this_binding" where
  "ajax_callback_this context_option =
     (case context_option of None \<Rightarrow> This_settings | Some c \<Rightarrow> c)"

section \<open>Update order status\<close>

record response =
  success :: jsval
  new_status :: jsval
  message :: jsval

text \<open>What the change handler hands to its callbacks: the constants of its closure.\<close>

record update_status_closure =
  orderId :: jsval
  newStatus :: jsval
  originalStatus :: string

text \<open>The user picks an option of the select; the change event follows.\<close>

definition user_selects :: "string \<Rightarrow> page \<Rightarrow> page" where
  "user_selects v p = p\<lparr>status_select := (status_select p)\<lparr>sel_value := Some v\<rparr>\<rparr>"

text \<open>\<^verbatim>\<open>$(this).val()\<close> on the select.\<close>

definition val_get :: "select_elem \<Rightarrow> jsval" where
  "val_get s = (case sel_value s of None \<Rightarrow> Null | Some v \<Rightarrow> Str v)"

text \<open>
  \<^verbatim>\<open>$(this).val(v)\<close>. On the select, \<open>v\<close> becomes a string (the empty one for
  \<^verbatim>\<open>undefined\<close> and \<^verbatim>\<open>null\<close>) and the option with that value is selected, none when no
  option has it. On an object that is not an element the setter does nothing.
\<close>

definition val_set :: "this_binding \<Rightarrow> jsval \<Rightarrow> page \<Rightarrow> page" where
  "val_set this v p =
     (case this of
        This_settings \<Rightarrow> p
      | This_element \<Rightarrow>
          (let s = (case v of Undefined \<Rightarrow> [] | Null \<Rightarrow> [] | _ \<Rightarrow> to_string v)
           in p\<lparr>status_select := (status_select p)
                 \<lparr>sel_value := (if s \<in> set (sel_options (status_select p)) then Some s else None)\<rparr>\<rparr>))"

text \<open>\<^verbatim>\<open>$(this).data('original-status')\<close>: the settings object has no such datum.\<close>

definition data_original_status_of :: "this_binding \<Rightarrow> page \<Rightarrow> jsval" where
  "data_original_status_of this p =
     (case this of This_settings \<Rightarrow> Undefined
      | This_element \<Rightarrow> data_original_status (status_select p))"

text \<open>The fixed mapping from the acknowledged status to the badge colour.\<close>

definition badgeClass :: "jsval \<Rightarrow> string" where
  "badgeClass st =
     (if st = Str ''pending'' then ''bg-primary''
      else if st = Str ''processing'' then ''bg-warning''
      else if st = Str ''confirmed'' then ''bg-info''
      else if st = Str ''delivered'' then ''bg-success''
      else if st = Str ''cancelled'' then ''bg-danger''
      else ''bg-secondary'')"

definition removeClass :: "string list \<Rightarrow> badge \<Rightarrow> badge" where
  "removeClass cs b = b\<lparr>classes := filter (\<lambda>c. c \<notin> set cs) (classes b)\<rparr>"

definition addClass :: "string \<Rightarrow> badge \<Rightarrow> badge" where
  "addClass c b = (if c \<in> set (classes b) then b else b\<lparr>classes := classes b @ [c]\<rparr>)"

text \<open>An operation on \<^verbatim>\<open>$('#' + id)\<close>: on the badge with that id when there is one.\<close>

definition on_badge :: "string \<Rightarrow> (badge \<Rightarrow> badge) \<Rightarrow> page \<Rightarrow> page" where
  "on_badge i f p =
     (case badges p i of None \<Rightarrow> p | Some b \<Rightarrow> p\<lparr>badges := (badges p)(i \<mapsto> f b)\<rparr>)"

definition spinner_updating :: string where
  "spinner_updating =
     ''<span class=\"spinner-border spinner-border-sm\"></span> Updating...''"

text \<open>The \<^verbatim>\<open>change\<close> handler of \<^verbatim>\<open>.update-status\<close>, up to and including the request.\<close>

definition update_status_change :: "page \<Rightarrow> update_status_closure \<times> page" where
  "update_status_change p =
     (let order_id = data_order_id (status_select p);
          new_st = val_get (status_select p);
          u = ''/dashboard/orders/'' @ to_string order_id @ ''/update-status'';
          original = text_of (status_text p);
          p1 = p\<lparr>status_text := Html spinner_updating\<rparr>;
          p2 = p1\<lparr>requests := requests p1 @
                 [\<lparr>url = u, req_type = ''POST'', data = [(''status'', to_string new_st)]\<rparr>]\<rparr>
      in (\<lparr>orderId = order_id, newStatus = new_st, originalStatus = original\<rparr>, p2))"

text \<open>
  The \<^verbatim>\<open>success\<close> callback. Its first statement throws when \<^verbatim>\<open>new_status\<close> is not a
  string; nothing has been written by then.
\<close>

definition update_status_success ::
  "update_status_closure \<Rightarrow> this_binding \<Rightarrow> int \<Rightarrow> response \<Rightarrow> page \<Rightarrow> js_error + page" where
  "update_status_success c this now r p =
     (if truthy (success r) then
        (case toUpperCase (new_status r) of
           Inl e \<Rightarrow> Inl e
         | Inr upper \<Rightarrow>
            (let p1 = p\<lparr>status_text := Text upper\<rparr>;
                 badge_id = ''status-badge-'' @ to_string (orderId c);
                 p2 = on_badge badge_id
                        (removeClass [''bg-primary'', ''bg-warning'', ''bg-info'',
                                      ''bg-success'', ''bg-danger'']) p1;
                 p3 = on_badge badge_id
                        (\<lambda>b. (addClass (badgeClass (new_status r)) b)\<lparr>badge_text := upper\<rparr>) p2
             in Inr (showToast now ''Success'' (Str ''Order status updated successfully'')
                       ''success'' p3)))
      else
        (let p1 = showToast now ''Error'' (message r) ''danger'' p
         in Inr (val_set this (data_original_status_of this p1) p1)))"

text \<open>The \<^verbatim>\<open>error\<close> callback.\<close>

definition update_status_error ::
  "update_status_closure \<Rightarrow> this_binding \<Rightarrow> int \<Rightarrow> string \<Rightarrow> page \<Rightarrow> page" where
  "update_status_error c this now err p =
     (let p1 = showToast now ''Error'' (Str (''Failed to update status: '' @ err)) ''danger'' p;
          p2 = val_set this (data_original_status_of this p1) p1
      in p2\<lparr>status_text := Text (originalStatus c)\<rparr>)"

text \<open>
  One whole interaction: the user picks \<open>v\<close>, the handler runs, and the request ends with
  \<open>outcome\<close> at time \<open>now\<close>.
\<close>

definition update_status_interaction ::
  "string \<Rightarrow> int \<Rightarrow> response ajax_outcome \<Rightarrow> page \<Rightarrow> js_error + page" where
  "update_status_interaction v now outcome p =
     (let (c, p1) = update_status_change (user_selects v p);
          this = ajax_callback_this None
      in case outcome of
           Ajax_success r \<Rightarrow> update_status_success c this now r p1
         | Ajax_error err \<Rightarrow> Inr (update_status_error c this now err p1))"

section \<open>Toggle user active, toggle review approval\<close>

record toggle_closure =
  target_id :: jsval
  is_checked :: bool

text \<open>The user clicks the checkbox; the change event follows.\<close>

definition user_toggles_active :: "page \<Rightarrow> page" where
  "user_toggles_active p =
     p\<lparr>user_toggle := (user_toggle p)\<lparr>checked := \<not> checked (user_toggle p)\<rparr>\<rparr>"

definition user_toggles_approval :: "page \<Rightarrow> page" where
  "user_toggles_approval p =
     p\<lparr>review_toggle := (review_toggle p)\<lparr>checked := \<not> checked (review_toggle p)\<rparr>\<rparr>"

text \<open>
  \<^verbatim>\<open>$(this).prop('checked', b)\<close>: sets the property on whatever \<^verbatim>\<open>this\<close> is; on the
  settings object that is a property of the settings, and no element changes.
\<close>

definition prop_checked_user :: "this_binding \<Rightarrow> bool \<Rightarrow> page \<Rightarrow> page" where
  "prop_checked_user this b p =
     (case this of This_settings \<Rightarrow> p
      | This_element \<Rightarrow> p\<lparr>user_toggle := (user_toggle p)\<lparr>checked := b\<rparr>\<rparr>)"

definition prop_checked_review :: "this_binding \<Rightarrow> bool \<Rightarrow> page \<Rightarrow> page" where
  "prop_checked_review this b p =
     (case this of This_settings \<Rightarrow> p
      | This_element \<Rightarrow> p\<lparr>review_toggle := (review_toggle p)\<lparr>checked := b\<rparr>\<rparr>)"

definition toggle_active_change :: "page \<Rightarrow> toggle_closure \<times> page" where
  "toggle_active_change p =
     (let userId = data_id (user_toggle p);
          isActive = checked (user_toggle p);
          u = ''/dashboard/users/'' @ to_string userId @ ''/toggle-active''
      in (\<lparr>target_id = userId, is_checked = isActive\<rparr>,
          p\<lparr>requests := requests p @ [\<lparr>url = u, req_type = ''POST'', data = []\<rparr>]\<rparr>))"

definition toggle_active_success ::
  "toggle_closure \<Rightarrow> this_binding \<Rightarrow> int \<Rightarrow> response \<Rightarrow> page \<Rightarrow> page" where
  "toggle_active_success c this now r p =
     (if truthy (success r) then
        (let statusText = (if is_checked c then ''activated'' else ''deactivated'');
             p1 = showToast now ''Success''
                    (Str (''User '' @ statusText @ '' successfully'')) ''success'' p;
             badge_id = ''user-status-'' @ to_string (target_id c);
             p2 = on_badge badge_id (removeClass [''bg-success'', ''bg-danger'']) p1;
             p3 = on_badge badge_id
                    (addClass (if is_checked c then ''bg-success'' else ''bg-danger'')) p2
         in on_badge badge_id
              (\<lambda>b. b\<lparr>badge_text := (if is_checked c then ''Active'' else ''Inactive'')\<rparr>) p3)
      else
        (let p1 = showToast now ''Error'' (message r) ''danger'' p
         in prop_checked_user this (\<not> is_checked c) p1))"

definition toggle_active_error ::
  "toggle_closure \<Rightarrow> this_binding \<Rightarrow> int \<Rightarrow> string \<Rightarrow> page \<Rightarrow> page" where
  "toggle_active_error c this now err p =
     (let p1 = showToast now ''Error''
                 (Str (''Failed to update user status: '' @ err)) ''danger'' p
      in prop_checked_user this (\<not> is_checked c) p1)"

definition toggle_active_interaction :: "int \<Rightarrow> response ajax_outcome \<Rightarrow> page \<Rightarrow> page" where
  "toggle_active_interaction now outcome p =
     (let (c, p1) = toggle_active_change (user_toggles_active p);
          this = ajax_callback_this None
      in case outcome of
           Ajax_success r \<Rightarrow> toggle_active_success c this now r p1
         | Ajax_error err \<Rightarrow> toggle_active_error c this now err p1)"

definition toggle_approval_change :: "page \<Rightarrow> toggle_closure \<times> page" where
  "toggle_approval_change p =
     (let reviewId = data_id (review_toggle p);
          isApproved = checked (review_toggle p);
          u = ''/dashboard/reviews/'' @ to_string reviewId @ ''/toggle-approval''
      in (\<lparr>target_id = reviewId, is_checked = isApproved\<rparr>,
          p\<lparr>requests := requests p @ [\<lparr>url = u, req_type = ''POST'', data = []\<rparr>]\<rparr>))"

definition toggle_approval_success ::
  "toggle_closure \<Rightarrow> this_binding \<Rightarrow> int \<Rightarrow> response \<Rightarrow> page \<Rightarrow> page" where
  "toggle_approval_success c this now r p =
     (if truthy (success r) then
        (let statusText = (if is_checked c then ''approved'' else ''unapproved'');
             p1 = showToast now ''Success''
                    (Str (''Review '' @ statusText @ '' successfully'')) ''success'' p;
             badge_id = ''review-status-'' @ to_string (target_id c);
             p2 = on_badge badge_id (removeClass [''bg-success'', ''bg-warning'']) p1;
             p3 = on_badge badge_id
                    (addClass (if is_checked c then ''bg-success'' else ''bg-warning'')) p2
         in on_badge badge_id
              (\<lambda>b. b\<lparr>badge_text := (if is_checked c then ''Approved'' else ''Pending'')\<rparr>) p3)
      else
        (let p1 = showToast now ''Error'' (message r) ''danger'' p
         in prop_checked_review this (\<not> is_checked c) p1))"

definition toggle_approval_error ::
  "toggle_closure \<Rightarrow> this_binding \<Rightarrow> int \<Rightarrow> string \<Rightarrow> page \<Rightarrow> page" where
  "toggle_approval_error c this now err p =
     (let p1 = showToast now ''Error''
                 (Str (''Failed to update review: '' @ err)) ''danger'' p
      in prop_checked_review this (\<not> is_checked c) p1)"

definition toggle_approval_interaction :: "int \<Rightarrow> response ajax_outcome \<Rightarrow> page \<Rightarrow> page" where
  "toggle_approval_interaction now outcome p =
     (let (c, p1) = toggle_approval_change (user_toggles_approval p);
          this = ajax_callback_this None
      in case outcome of
           Ajax_success r \<Rightarrow> toggle_approval_success c this now r p1
         | Ajax_error err \<Rightarrow> toggle_approval_error c this now err p1)"

section \<open>Periodic statistics refresh\<close>

text \<open>
  The numbers of a statistics response are of a type \<open>'n\<close> of the platform's; so are the
  three renderings the display applies to them: the default one of \<^verbatim>\<open>.text(n)\<close>,
  \<^verbatim>\<open>n.toLocaleString('en-IN')\<close> and \<^verbatim>\<open>n.toFixed(2)\<close>.
\<close>

record 'n stats =
  order_count :: 'n
  revenue :: 'n
  avg_order_value :: 'n
  new_customers :: 'n

record 'n number_format =
  plain :: "'n \<Rightarrow> string"
  toLocaleString_en_IN :: "'n \<Rightarrow> string"
  toFixed2 :: "'n \<Rightarrow> string"

record 'n stats_response =
  stats_success :: jsval
  stats :: "'n stats option"

text \<open>The rupee sign, as the bytes of its UTF-8 encoding.\<close>

definition rupee :: string where
  "rupee = [char_of (226 :: nat), char_of (130 :: nat), char_of (185 :: nat)]"

text \<open>\<^verbatim>\<open>updateStatsDisplay(stats)\<close>; reading a field of a missing \<^verbatim>\<open>stats\<close> throws.\<close>

definition updateStatsDisplay ::
  "'n number_format \<Rightarrow> 'n stats option \<Rightarrow> page \<Rightarrow> js_error + page" where
  "updateStatsDisplay fmt st p =
     (case st of
        None \<Rightarrow> Inl TypeError
      | Some s \<Rightarrow>
          Inr (p\<lparr>stat_orders := plain fmt (order_count s),
                  stat_revenue := rupee @ toLocaleString_en_IN fmt (revenue s),
                  stat_avg_order := rupee @ toFixed2 fmt (avg_order_value s),
                  stat_customers := plain fmt (new_customers s)\<rparr>))"

text \<open>\<^verbatim>\<open>updateDashboardStats()\<close>: the request of one tick.\<close>

definition updateDashboardStats :: "page \<Rightarrow> page" where
  "updateDashboardStats p =
     p\<lparr>requests := requests p @
        [\<lparr>url = ''/api/dashboard/stats?period=today'', req_type = ''GET'', data = []\<rparr>]\<rparr>"

text \<open>
  How the request of a tick ends. The settings have a \<^verbatim>\<open>success\<close> callback and no
  \<^verbatim>\<open>error\<close> callback.
\<close>

definition updateDashboardStats_done ::
  "'n number_format \<Rightarrow> 'n stats_response ajax_outcome \<Rightarrow> page \<Rightarrow> js_error + page" where
  "updateDashboardStats_done fmt outcome p =
     (case outcome of
        Ajax_success r \<Rightarrow>
          (if truthy (stats_success r) then updateStatsDisplay fmt (stats r) p else Inr p)
      | Ajax_error err \<Rightarrow> Inr p)"

section \<open>Export\<close>

text \<open>
  The UTC calendar date of a time value (milliseconds since the epoch), by the usual
  computation on days since 1 March 0000 in eras of 400 years.
\<close>

definition msPerDay :: int where
  "msPerDay = 86400000"

definition day_of_era :: "int \<Rightarrow> int" where
  "day_of_era t = (t div msPerDay + 719468) mod 146097"

definition year_of_era :: "int \<Rightarrow> int" where
  "year_of_era t =
     (let doe = day_of_era t
      in (doe - doe div 1460 + doe div 36524 - doe div 146096) div 365)"

definition day_of_year :: "int \<Rightarrow> int" where
  "day_of_year t =
     (let yoe = year_of_era t
      in day_of_era t - (365 * yoe + yoe div 4 - yoe div 100))"

definition month_index :: "int \<Rightarrow> int" where
  "month_index t = (5 * day_of_year t + 2) div 153"

definition utc_month :: "int \<Rightarrow> int" where
  "utc_month t = (if month_index t < 10 then month_index t + 3 else month_index t - 9)"

definition utc_date :: "int \<Rightarrow> int" where
  "utc_date t = day_of_year t - (153 * month_index t + 2) div 5 + 1"

definition utc_year :: "int \<Rightarrow> int" where
  "utc_year t =
     year_of_era t + ((t div msPerDay + 719468) div 146097) * 400
       + (if utc_month t \<le> 2 then 1 else 0)"

text \<open>A number in two, three and four decimal digits, the leading zeros written.\<close>

definition digits2 :: "int \<Rightarrow> string" where
  "digits2 n = [digit_char (nat (n div 10)), digit_char (nat n)]"

definition digits3 :: "int \<Rightarrow> string" where
  "digits3 n = [digit_char (nat (n div 100)), digit_char (nat (n div 10)), digit_char (nat n)]"

definition digits4 :: "int \<Rightarrow> string" where
  "digits4 n = digit_char (nat (n div 1000)) # digits3 n"

text \<open>
  \<^verbatim>\<open>new Date(t).toISOString()\<close>: \<^verbatim>\<open>YYYY-MM-DDTHH:mm:ss.sssZ\<close>, the year in four digits
  from 0 to 9999 and in six digits after a sign outside.
\<close>

definition toISOString :: "int \<Rightarrow> string" where
  "toISOString t =
     (let y = utc_year t;
          ms = t mod msPerDay;
          year_part =
            (if 0 \<le> y \<and> y \<le> 9999 then digits4 y
             else (if y < 0 then ''-'' else ''+'')
                    @ digits3 (\<bar>y\<bar> div 1000) @ digits3 \<bar>y\<bar>)
      in year_part @ ''-'' @ digits2 (utc_month t) @ ''-'' @ digits2 (utc_date t)
           @ ''T'' @ digits2 (ms div 3600000) @ '':'' @ digits2 (ms div 60000 mod 60)
           @ '':'' @ digits2 (ms div 1000 mod 60) @ ''.'' @ digits3 (ms mod 1000) @ ''Z'')"

text \<open>
  The \<^verbatim>\<open>click\<close> handler of \<^verbatim>\<open>.export-data\<close>, up to and including the request.
  \<open>export_type\<close> and \<open>export_url\<close> are the element's \<^verbatim>\<open>data('type')\<close> and \<^verbatim>\<open>data('url')\<close>;
  \<open>now\<close> is the clock at the click.
\<close>

definition export_data_click :: "jsval \<Rightarrow> jsval \<Rightarrow> int \<Rightarrow> page \<Rightarrow> page" where
  "export_data_click export_type export_url now p =
     (let p1 = showToast now ''Info'' (Str ''Preparing export...'') ''info'' p
      in p1\<lparr>requests := requests p1 @
             [\<lparr>url = to_string export_url, req_type = ''GET'', data = [(''format'', ''csv'')]\<rparr>]\<rparr>)"

text \<open>The name given to \<^verbatim>\<open>link.download\<close>; \<open>now\<close> is the clock when the expression runs.\<close>

definition export_filename :: "jsval \<Rightarrow> int \<Rightarrow> string" where
  "export_filename export_type now =
     ''export_'' @ to_string export_type @ ''_'' @ take 10 (toISOString now) @ ''.csv''"

text \<open>The \<^verbatim>\<open>success\<close> callback, run with the clock at \<open>now\<close>.\<close>

definition export_data_success :: "jsval \<Rightarrow> int \<Rightarrow> page \<Rightarrow> page" where
  "export_data_success export_type now p =
     (let p1 = p\<lparr>downloads := downloads p @ [export_filename export_type now]\<rparr>
      in showToast now ''Success'' (Str ''Export completed successfully'') ''success'' p1)"

definition export_data_error :: "int \<Rightarrow> string \<Rightarrow> page \<Rightarrow> page" where
  "export_data_error now err p =
     showToast now ''Error'' (Str (''Export failed: '' @ err)) ''danger'' p"

text \<open>
  One whole export: a click at \<open>t_click\<close>, and the end of the request at \<open>t_done\<close>. The
  \<^verbatim>\<open>success\<close> callback wraps whatever payload came back (of any type \<open>'b\<close>) into the
  file and does not look into it.
\<close>

definition export_interaction ::
  "jsval \<Rightarrow> jsval \<Rightarrow> int \<Rightarrow> int \<Rightarrow> 'b ajax_outcome \<Rightarrow> page \<Rightarrow> page" where
  "export_interaction export_type export_url t_click t_done outcome p =
     (let p1 = export_data_click export_type export_url t_click p
      in case outcome of
           Ajax_success blob \<Rightarrow> export_data_success export_type t_done p1
         | Ajax_error err \<Rightarrow> export_data_error t_done err p1)"

section \<open>Bulk action\<close>

text \<open>
  The \<^verbatim>\<open>click\<close> handler of \<^verbatim>\<open>.bulk-action\<close>. \<open>action\<close> is the element's \<^verbatim>\<open>data('action')\<close>
  and \<open>answer\<close> is what the user replies, should \<^verbatim>\<open>confirm\<close> be called.
\<close>

definition selectedIds :: "page \<Rightarrow> string list" where
  "selectedIds p = map bulk_value (filter bulk_checked (bulk_selects p))"

definition bulk_action_click :: "jsval \<Rightarrow> bool \<Rightarrow> int \<Rightarrow> page \<Rightarrow> page" where
  "bulk_action_click action answer now p =
     (let ids = selectedIds p
      in if length ids = 0 then
           showToast now ''Warning'' (Str ''Please select items to perform this action'')
             ''warning'' p
         else
           (let p1 = p\<lparr>confirms := confirms p @
                        [''Are you sure you want to '' @ to_string action @ '' ''
                           @ show_nat (length ids) @ '' selected item(s)?'']\<rparr>
            in if answer then
                 p1\<lparr>console := console p1 @ [(''Bulk '' @ to_string action @ '' for IDs:'', ids)]\<rparr>
               else p1))"

section \<open>Theme switcher\<close>

definition theme_switcher_click :: "int \<Rightarrow> page \<Rightarrow> page" where
  "theme_switcher_click now p =
     (let currentTheme = html_theme p;
          newTheme = (if currentTheme = Some ''dark'' then ''light'' else ''dark'');
          p1 = p\<lparr>html_theme := Some newTheme\<rparr>;
          p2 = p1\<lparr>localStorage := (localStorage p1)(''theme'' \<mapsto> newTheme)\<rparr>
      in showToast now ''Theme Changed'' (Str (''Switched to '' @ newTheme @ '' mode'')) ''info'' p2)"

text \<open>The check for a saved preference, run once when the document is ready.\<close>

definition load_saved_theme :: "page \<Rightarrow> page" where
  "load_saved_theme p =
     (case localStorage p ''theme'' of
        None \<Rightarrow> p
      | Some savedTheme \<Rightarrow> (if savedTheme \<noteq> [] then p\<lparr>html_theme := Some savedTheme\<rparr> else p))"

text \<open>
  A reload: the document is built again from its markup (\<open>fresh\<close>), the storage is what
  the page before left, and the ready handler runs.
\<close>

definition reload :: "page \<Rightarrow> page \<Rightarrow> page" where
  "reload fresh p = load_saved_theme (fresh\<lparr>localStorage := localStorage p\<rparr>)"

section \<open>Relative time\<close>

text \<open>
  \<^verbatim>\<open>getTimeAgo(dateString)\<close>. \<open>date\<close> is the time value of \<^verbatim>\<open>new Date(dateString)\<close>, \<open>None\<close>
  for an invalid date; \<open>now\<close> is the time value of \<^verbatim>\<open>new Date()\<close>. With an invalid date
  every number is \<^verbatim>\<open>NaN\<close>, every comparison fails and the last line returns.
\<close>

definition getTimeAgo :: "int option \<Rightarrow> int \<Rightarrow> string" where
  "getTimeAgo date now =
     (case date of
        None \<Rightarrow> ''NaN'' @ ''y ago''
      | Some d \<Rightarrow>
         (let seconds = (now - d) div 1000 in
          if seconds < 60 then ''just now'' else
          let minutes = seconds div 60 in
          if minutes < 60 then show_int minutes @ ''m ago'' else
          let hours = minutes div 60 in
          if hours < 24 then show_int hours @ ''h ago'' else
          let days = hours div 24 in
          if days < 30 then show_int days @ ''d ago'' else
          let months = days div 30 in
          if months < 12 then show_int months @ ''mo ago'' else
          let years = months div 12 in
          show_int years @ ''y ago''))"

section \<open>Whole numbers as the numbers of a statistics response\<close>

text \<open>
  The three renderings on whole numbers: plain decimal digits; the grouping of
  \<^verbatim>\<open>en-IN\<close> (the last three digits, then pairs); two decimals after the point.
\<close>

fun group_pairs :: "string \<Rightarrow> string" where
  "group_pairs (a # b # c # cs) = a # b # CHR '','' # group_pairs (c # cs)"
| "group_pairs cs = cs"

definition en_IN_digits :: "string \<Rightarrow> string" where
  "en_IN_digits ds =
     (let r = rev ds
      in if length r \<le> 3 then ds else rev (take 3 r @ CHR '','' # group_pairs (drop 3 r)))"

definition int_format :: "int number_format" where
  "int_format =
     \<lparr>plain = show_int,
      toLocaleString_en_IN =
        (\<lambda>n. (if n < 0 then ''-'' else []) @ en_IN_digits (show_nat (nat \<bar>n\<bar>))),
      toFixed2 = (\<lambda>n. show_int n @ ''.00'')\<rparr>"

section \<open>An example page\<close>

text \<open>
  A page with one order row (order 42, pending), one user row (user 7, inactive), one
  review row (review 9, not approved) and three bulk checkboxes, two of them checked.
\<close>

definition example_page :: page where
  "example_page =
     \<lparr>toastContainer = None, requests = [],
      status_select = \<lparr>sel_options = [''pending'', ''processing'', ''confirmed'', ''delivered'', ''cancelled''],
                       sel_value = Some ''pending'', data_order_id = Num 42,
                       data_original_status = Str ''pending''\<rparr>,
      status_text = Text ''PENDING'',
      badges = [''status-badge-42'' \<mapsto> \<lparr>classes = [''badge'', ''bg-primary''], badge_text = ''PENDING''\<rparr>,
                ''user-status-7'' \<mapsto> \<lparr>classes = [''badge'', ''bg-danger''], badge_text = ''Inactive''\<rparr>,
                ''review-status-9'' \<mapsto> \<lparr>classes = [''badge'', ''bg-warning''], badge_text = ''Pending''\<rparr>],
      user_toggle = \<lparr>checked = False, data_id = Num 7\<rparr>,
      review_toggle = \<lparr>checked = False, data_id = Num 9\<rparr>,
      stat_orders = ''12'', stat_revenue = rupee @ ''45,000'', stat_avg_order = rupee @ ''3750.50'',
      stat_customers = ''3'',
      bulk_selects = [\<lparr>bulk_checked = True, bulk_value = ''3''\<rparr>, \<lparr>bulk_checked = False, bulk_value = ''4''\<rparr>,
                      \<lparr>bulk_checked = True, bulk_value = ''5''\<rparr>],
      confirms = [], console = [], downloads = [],
      html_theme = None, localStorage = Map.empty\<rparr>"

section \<open>Facts about toasts, badges and dates\<close>

lemmas iso_defs = toISOString_def utc_year_def utc_month_def utc_date_def month_index_def
  day_of_year_def year_of_era_def day_of_era_def msPerDay_def digits2_def digits3_def
  digits4_def digit_char_def Let_def

lemmas eval_nat = show_int_def show_nat.simps digit_char_def

lemma getElementById_show_length [simp]: "length (getElementById_show i ts) = length ts"
  by (induction ts) auto

lemma getElementById_show_titles [simp]:
  "map toast_title (getElementById_show i ts) = map toast_title ts"
  by (induction ts) auto

lemma getElementById_show_messages [simp]:
  "map toast_message (getElementById_show i ts) = map toast_message ts"
  by (induction ts) auto

lemma getElementById_show_types [simp]:
  "map toast_type (getElementById_show i ts) = map toast_type ts"
  by (induction ts) auto

lemma getElementById_show_ids [simp]:
  "map toast_id (getElementById_show i ts) = map toast_id ts"
  by (induction ts) auto

lemma toasts_of_showToast:
  "toasts_of (showToast now title msg ty p) =
     getElementById_show (''toast-'' @ show_int now)
       (toasts_of p @ [\<lparr>toast_id = ''toast-'' @ show_int now, toast_title = title,
                        toast_message = to_string msg, toast_type = ty, shown = False\<rparr>])"
  by (simp add: showToast_def toasts_of_def Let_def)

lemma showToast_frame [simp]:
  "requests (showToast now title msg ty p) = requests p"
  "status_select (showToast now title msg ty p) = status_select p"
  "status_text (showToast now title msg ty p) = status_text p"
  "badges (showToast now title msg ty p) = badges p"
  "user_toggle (showToast now title msg ty p) = user_toggle p"
  "review_toggle (showToast now title msg ty p) = review_toggle p"
  "stat_orders (showToast now title msg ty p) = stat_orders p"
  "stat_revenue (showToast now title msg ty p) = stat_revenue p"
  "stat_avg_order (showToast now title msg ty p) = stat_avg_order p"
  "stat_customers (showToast now title msg ty p) = stat_customers p"
  "bulk_selects (showToast now title msg ty p) = bulk_selects p"
  "confirms (showToast now title msg ty p) = confirms p"
  "console (showToast now title msg ty p) = console p"
  "downloads (showToast now title msg ty p) = downloads p"
  "html_theme (showToast now title msg ty p) = html_theme p"
  "localStorage (showToast now title msg ty p) = localStorage p"
  by (simp_all add: showToast_def Let_def)

lemma toasts_of_update [simp]:
  "toasts_of (p\<lparr>requests := rq\<rparr>) = toasts_of p"
  "toasts_of (p\<lparr>status_select := ss\<rparr>) = toasts_of p"
  "toasts_of (p\<lparr>status_text := st\<rparr>) = toasts_of p"
  "toasts_of (p\<lparr>badges := bs\<rparr>) = toasts_of p"
  "toasts_of (p\<lparr>user_toggle := ut\<rparr>) = toasts_of p"
  "toasts_of (p\<lparr>review_toggle := rt\<rparr>) = toasts_of p"
  "toasts_of (p\<lparr>downloads := ds\<rparr>) = toasts_of p"
  "toasts_of (p\<lparr>confirms := cf\<rparr>) = toasts_of p"
  "toasts_of (p\<lparr>console := co\<rparr>) = toasts_of p"
  "toasts_of (p\<lparr>html_theme := th\<rparr>) = toasts_of p"
  "toasts_of (p\<lparr>localStorage := ls\<rparr>) = toasts_of p"
  by (simp_all add: toasts_of_def)

lemma toasts_of_val_set [simp]: "toasts_of (val_set this v p) = toasts_of p"
  by (simp add: val_set_def Let_def split: this_binding.splits)

lemma toasts_of_prop_checked [simp]:
  "toasts_of (prop_checked_user this b p) = toasts_of p"
  "toasts_of (prop_checked_review this b p) = toasts_of p"
  by (simp_all add: prop_checked_user_def prop_checked_review_def split: this_binding.splits)

lemma notified_showToast:
  "toasts_of q = toasts_of p \<Longrightarrow>
   notified p (showToast now title msg ty q) title (to_string msg) ty"
  by (simp add: notified_def toasts_of_showToast)

lemma notified_cong: "toasts_of p' = toasts_of q' \<Longrightarrow> notified p p' a b c = notified p q' a b c"
  by (simp add: notified_def)

lemma on_badge_lookup:
  "badges (on_badge i f p) i = map_option f (badges p i)"
  by (simp add: on_badge_def split: option.splits)

lemma digit_char_is_digit: "digit_char n \<in> set ''0123456789''"
proof -
  have "n mod 10 < length ''0123456789''" by simp
  then have "''0123456789'' ! (n mod 10) \<in> set ''0123456789''" by (rule nth_mem)
  then show ?thesis by (simp only: digit_char_def)
qed

lemma take_iso_date:
  "0 \<le> utc_year t \<Longrightarrow> utc_year t \<le> 9999 \<Longrightarrow>
   take 10 (toISOString t) =
     digits4 (utc_year t) @ ''-'' @ digits2 (utc_month t) @ ''-'' @ digits2 (utc_date t)"
  by (simp add: toISOString_def Let_def digits2_def digits3_def digits4_def)

text \<open>
  The decimal digits written for a number read back as that number, and a toast whose id
  no earlier toast has is the one that the lookup by id finds and shows.
\<close>

lemma digit_value_of_digits: "\<forall>k\<in>set [0..<10]. digit_value (''0123456789'' ! k) = k"
  by (simp add: digit_value_def upt_rec)

lemma digit_value_digit_char: "digit_value (digit_char n) = n mod 10"
proof -
  have "n mod 10 \<in> set [0..<10]" by simp
  with digit_value_of_digits have "digit_value (''0123456789'' ! (n mod 10)) = n mod 10"
    by blast
  then show ?thesis by (simp only: digit_char_def)
qed

lemma decimal_value_snoc: "decimal_value (s @ [c]) = 10 * decimal_value s + digit_value c"
  by (simp add: decimal_value_def)

lemma decimal_value_show_nat: "decimal_value (show_nat n) = n"
proof (induction n rule: show_nat.induct)
  case (1 n)
  show ?case
  proof (cases "n < 10")
    case True
    then have "show_nat n = [digit_char n]"
      by (simp add: show_nat.simps [of n])
    with True show ?thesis
      by (simp add: decimal_value_def digit_value_digit_char)
  next
    case False
    then have "show_nat n = show_nat (n div 10) @ [digit_char n]"
      by (simp add: show_nat.simps [of n])
    with "1.IH" [OF False] show ?thesis
      by (simp add: decimal_value_snoc digit_value_digit_char)
  qed
qed

lemma decimal_value_show_int: "decimal_value (show_int (int n)) = n"
  by (simp add: show_int_def decimal_value_show_nat)

lemma getElementById_show_fresh:
  "i \<notin> set (map toast_id ts) \<Longrightarrow> toast_id t = i \<Longrightarrow>
   getElementById_show i (ts @ [t]) = ts @ [t\<lparr>shown := True\<rparr>]"
  by (induction ts) auto

lemma decimal_value_nonneg: "0 \<le> q \<Longrightarrow> decimal_value (show_int q) = nat q"
  using decimal_value_show_int [of "nat q"] by simp

section \<open>C1: a failed status update\<close>

text \<open>
  With the callbacks run the way \<open>$.ajax\<close> runs them, a failed status update leaves the
  select on the value the user picked; a rejection (a response whose \<open>success\<close> is not
  truthy) also leaves the label on the spinner, since only the \<open>error\<close> callback writes
  the old text back.
\<close>

lemma update_status_failure_keeps_new_value:
  "\<exists>p'. update_status_interaction v now (Ajax_error err) p = Inr p' \<and>
         sel_value (status_select p') = Some v \<and>
         text_of (status_text p') = text_of (status_text p)"
  "\<not> truthy (success r) \<Longrightarrow>
   \<exists>p'. update_status_interaction v now (Ajax_success r) p = Inr p' \<and>
         sel_value (status_select p') = Some v \<and>
         status_text p' = Html spinner_updating"
  by (simp_all add: update_status_interaction_def update_status_change_def
      update_status_success_def update_status_error_def user_selects_def Let_def
      ajax_callback_this_def val_set_def)

text \<open>
  The label stays on the spinner after a rejection whatever the receiver of the callback
  is; and were the receiver the select, the value written back would be that of the
  \<open>data-original-status\<close> attribute, which no handler updates.
\<close>

lemma update_status_rejected_label_any_receiver:
  "\<not> truthy (success r) \<Longrightarrow>
   \<exists>p'. update_status_success c this now r (snd (update_status_change p)) = Inr p' \<and>
         status_text p' = Html spinner_updating"
  by (cases this)
    (simp_all add: update_status_change_def update_status_success_def Let_def val_set_def)

lemma update_status_reset_on_element:
  "data_original_status (status_select p) = Str s \<Longrightarrow>
   sel_value (status_select (update_status_error c This_element now err p)) =
     (if s \<in> set (sel_options (status_select p)) then Some s else None)"
  by (simp add: update_status_error_def val_set_def data_original_status_of_def Let_def)

text \<open>
  C1 (the code departs from the claim). The claim: after a failed status update the
  select holds the value, and the label the text, of before the user's change. On the
  example page (select on \<open>pending\<close>, label \<open>PENDING\<close>) the user picks \<open>delivered\<close>:
  after the response \<open>{success: false, message: "locked"}\<close> the select holds
  \<open>delivered\<close> and the label reads \<open>Updating...\<close>; after a failure of the request the
  label reads \<open>PENDING\<close> again and the select still holds \<open>delivered\<close>.
\<close>

theorem update_status_failure_not_reverted:
  "sel_value (status_select example_page) = Some ''pending'' \<and>
   text_of (status_text example_page) = ''PENDING'' \<and>
   (\<exists>p'. update_status_interaction ''delivered'' 1700000000000
           (Ajax_success \<lparr>success = Bool False, new_status = Undefined, message = Str ''locked''\<rparr>)
           example_page = Inr p' \<and>
         sel_value (status_select p') = Some ''delivered'' \<and>
         text_of (status_text p') = '' Updating...'') \<and>
   (\<exists>p'. update_status_interaction ''delivered'' 1700000000000 (Ajax_error ''timeout'')
           example_page = Inr p' \<and>
         sel_value (status_select p') = Some ''delivered'' \<and>
         text_of (status_text p') = ''PENDING'')"
proof -
  have before: "sel_value (status_select example_page) = Some ''pending''"
    "text_of (status_text example_page) = ''PENDING''"
    by (simp_all add: example_page_def)
  have spinner: "strip_tags False spinner_updating = '' Updating...''"
    by (simp add: spinner_updating_def)
  have rejected: "\<exists>p'. update_status_interaction ''delivered'' 1700000000000
           (Ajax_success \<lparr>success = Bool False, new_status = Undefined, message = Str ''locked''\<rparr>)
           example_page = Inr p' \<and>
         sel_value (status_select p') = Some ''delivered'' \<and>
         text_of (status_text p') = '' Updating...''"
    using update_status_failure_keeps_new_value(2)
      [where r = "\<lparr>success = Bool False, new_status = Undefined, message = Str ''locked''\<rparr>"
         and v = "''delivered''" and now = 1700000000000 and p = example_page]
    by (auto simp add: spinner)
  have failed: "\<exists>p'. update_status_interaction ''delivered'' 1700000000000 (Ajax_error ''timeout'')
           example_page = Inr p' \<and>
         sel_value (status_select p') = Some ''delivered'' \<and>
         text_of (status_text p') = ''PENDING''"
    using update_status_failure_keeps_new_value(1)
      [where err = "''timeout''" and v = "''delivered''" and now = 1700000000000
         and p = example_page]
    by (simp add: before)
  from before rejected failed show ?thesis by blast
qed

section \<open>C2: a failed toggle\<close>

text \<open>
  After a failed toggle the checkbox keeps the state the user gave it: the write of
  \<open>!isActive\<close> (and of \<open>!isApproved\<close>) goes to the receiver of the callback, which is the
  settings object of the request.
\<close>

lemma toggle_failure_keeps_new_state:
  "checked (user_toggle (toggle_active_interaction now (Ajax_error err) p))
     = (\<not> checked (user_toggle p))"
  "checked (review_toggle (toggle_approval_interaction now (Ajax_error err) p))
     = (\<not> checked (review_toggle p))"
  "\<not> truthy (success r) \<Longrightarrow>
   checked (user_toggle (toggle_active_interaction now (Ajax_success r) p))
     = (\<not> checked (user_toggle p))"
  "\<not> truthy (success r) \<Longrightarrow>
   checked (review_toggle (toggle_approval_interaction now (Ajax_success r) p))
     = (\<not> checked (review_toggle p))"
  by (simp_all add: toggle_active_interaction_def toggle_active_change_def
      toggle_active_success_def toggle_active_error_def user_toggles_active_def
      toggle_approval_interaction_def toggle_approval_change_def
      toggle_approval_success_def toggle_approval_error_def user_toggles_approval_def
      prop_checked_user_def prop_checked_review_def ajax_callback_this_def Let_def)

text \<open>Were the receiver the checkbox, the \<open>error\<close> callback would restore its state.\<close>

lemma toggle_revert_on_element:
  "checked (user_toggle
      (toggle_active_error (fst (toggle_active_change (user_toggles_active p))) This_element
         now err (snd (toggle_active_change (user_toggles_active p)))))
     = checked (user_toggle p)"
  "checked (review_toggle
      (toggle_approval_error (fst (toggle_approval_change (user_toggles_approval p))) This_element
         now err (snd (toggle_approval_change (user_toggles_approval p)))))
     = checked (review_toggle p)"
  by (simp_all add: toggle_active_change_def toggle_active_error_def user_toggles_active_def
      toggle_approval_change_def toggle_approval_error_def user_toggles_approval_def
      prop_checked_user_def prop_checked_review_def Let_def)

text \<open>
  C2 (the code departs from the claim). The claim: after a failed toggle the checkbox
  has the state of before the toggle. On the example page both checkboxes are unchecked;
  the user checks one, the request is rejected or fails, and the checkbox is still
  checked afterwards.
\<close>

theorem toggle_failure_not_reverted:
  "checked (user_toggle example_page) = False \<and>
   checked (user_toggle (toggle_active_interaction 1700000000000
      (Ajax_success \<lparr>success = Bool False, new_status = Undefined, message = Str ''locked''\<rparr>)
      example_page)) = True \<and>
   checked (user_toggle (toggle_active_interaction 1700000000000 (Ajax_error ''timeout'')
      example_page)) = True \<and>
   checked (review_toggle example_page) = False \<and>
   checked (review_toggle (toggle_approval_interaction 1700000000000
      (Ajax_success \<lparr>success = Bool False, new_status = Undefined, message = Str ''locked''\<rparr>)
      example_page)) = True \<and>
   checked (review_toggle (toggle_approval_interaction 1700000000000 (Ajax_error ''timeout'')
      example_page)) = True"
proof -
  have before: "checked (user_toggle example_page) = False"
    "checked (review_toggle example_page) = False"
    by (simp_all add: example_page_def)
  then show ?thesis
    by (simp add: toggle_failure_keeps_new_state)
qed

section \<open>C3: the badge colour of a status update\<close>

text \<open>
  C3. On a successful status update the class given to the badge is a function of the
  acknowledged status: \<open>pending\<close>, \<open>processing\<close>, \<open>confirmed\<close>, \<open>delivered\<close> and
  \<open>cancelled\<close> map to \<open>bg-primary\<close>, \<open>bg-warning\<close>, \<open>bg-info\<close>, \<open>bg-success\<close> and
  \<open>bg-danger\<close>, six classes that are pairwise different with the default; every other
  value maps to the default \<open>bg-secondary\<close>; and the success callback adds exactly that
  class to the badge of the order, after removing the five enumerated ones.
\<close>

theorem badge_class_of_acknowledged_status:
  "badgeClass (Str ''pending'') = ''bg-primary'' \<and>
   badgeClass (Str ''processing'') = ''bg-warning'' \<and>
   badgeClass (Str ''confirmed'') = ''bg-info'' \<and>
   badgeClass (Str ''delivered'') = ''bg-success'' \<and>
   badgeClass (Str ''cancelled'') = ''bg-danger'' \<and>
   distinct [''bg-primary'', ''bg-warning'', ''bg-info'', ''bg-success'', ''bg-danger'',
             ''bg-secondary''] \<and>
   (st \<notin> {Str ''pending'', Str ''processing'', Str ''confirmed'', Str ''delivered'',
            Str ''cancelled''} \<longrightarrow> badgeClass st = ''bg-secondary'') \<and>
   (truthy (success r) \<and> new_status r = Str s \<and>
    badges p (''status-badge-'' @ to_string (orderId c)) = Some b \<longrightarrow>
      (\<exists>p' b'. update_status_success c this now r p = Inr p' \<and>
         badges p' (''status-badge-'' @ to_string (orderId c)) = Some b' \<and>
         classes b' =
           classes (addClass (badgeClass (Str s))
             (removeClass [''bg-primary'', ''bg-warning'', ''bg-info'', ''bg-success'',
                           ''bg-danger''] b)) \<and>
         badgeClass (Str s) \<in> set (classes b')))"
proof -
  have fixed: "badgeClass (Str ''pending'') = ''bg-primary'' \<and>
      badgeClass (Str ''processing'') = ''bg-warning'' \<and>
      badgeClass (Str ''confirmed'') = ''bg-info'' \<and>
      badgeClass (Str ''delivered'') = ''bg-success'' \<and>
      badgeClass (Str ''cancelled'') = ''bg-danger''"
    by (simp add: badgeClass_def)
  have dist: "distinct [''bg-primary'', ''bg-warning'', ''bg-info'', ''bg-success'',
      ''bg-danger'', ''bg-secondary'']"
    by simp
  have other: "st \<notin> {Str ''pending'', Str ''processing'', Str ''confirmed'', Str ''delivered'',
      Str ''cancelled''} \<longrightarrow> badgeClass st = ''bg-secondary''"
    by (simp add: badgeClass_def)
  have badge: "\<exists>p' b'. update_status_success c this now r p = Inr p' \<and>
         badges p' (''status-badge-'' @ to_string (orderId c)) = Some b' \<and>
         classes b' =
           classes (addClass (badgeClass (Str s))
             (removeClass [''bg-primary'', ''bg-warning'', ''bg-info'', ''bg-success'',
                           ''bg-danger''] b)) \<and>
         badgeClass (Str s) \<in> set (classes b')"
    if ok: "truthy (success r)" and st: "new_status r = Str s"
      and b: "badges p (''status-badge-'' @ to_string (orderId c)) = Some b"
  proof -
    have mem: "x \<in> set (classes (addClass x bb))" for x bb
      by (simp add: addClass_def)
    show ?thesis
      using ok st b
      by (simp add: update_status_success_def Let_def on_badge_lookup mem)
  qed
  from fixed dist other badge show ?thesis by blast
qed

theorem badge_class_of_acknowledged_status_witness:
  "badgeClass (Str ''shipped'') = ''bg-secondary'' \<and>
   (\<exists>p' b'.
      update_status_success \<lparr>orderId = Num 42, newStatus = Str ''delivered'', originalStatus = ''PENDING''\<rparr>
        This_settings 1700000000000
        \<lparr>success = Bool True, new_status = Str ''delivered'', message = Undefined\<rparr>
        example_page = Inr p' \<and>
      badges p' ''status-badge-42'' = Some b' \<and>
      classes b' = [''badge'', ''bg-success''])"
  using badge_class_of_acknowledged_status
    [where st = "Str ''shipped''"
       and r = "\<lparr>success = Bool True, new_status = Str ''delivered'', message = Undefined\<rparr>"
       and s = "''delivered''" and p = example_page
       and c = "\<lparr>orderId = Num 42, newStatus = Str ''delivered'', originalStatus = ''PENDING''\<rparr>"
       and b = "\<lparr>classes = [''badge'', ''bg-primary''], badge_text = ''PENDING''\<rparr>"
       and this = This_settings and now = 1700000000000]
  by (simp add: example_page_def show_int_def show_nat.simps digit_char_def badgeClass_def
      addClass_def removeClass_def) blast

section \<open>C4: toast ids\<close>

text \<open>Two toasts made at the same reading of the clock have the same id.\<close>

lemma same_clock_same_id:
  "map toast_id (toasts_of (showToast t title2 msg2 ty2 (showToast t title1 msg1 ty1 p))) =
     map toast_id (toasts_of p) @ [''toast-'' @ show_int t, ''toast-'' @ show_int t]"
  by (simp add: toasts_of_showToast)

text \<open>
  Toasts made at different readings of the clock (from 1970 on) have different ids: the
  decimal digits of a number determine it.
\<close>

lemma digit_char_inj: "digit_char a = digit_char b \<Longrightarrow> a mod 10 = b mod 10"
proof -
  assume eq: "digit_char a = digit_char b"
  have d: "distinct ''0123456789''" by simp
  have la: "a mod 10 < length ''0123456789''" and lb: "b mod 10 < length ''0123456789''"
    by simp_all
  from eq have "''0123456789'' ! (a mod 10) = ''0123456789'' ! (b mod 10)"
    by (simp only: digit_char_def)
  with nth_eq_iff_index_eq [OF d la lb] show ?thesis by blast
qed

lemma show_nat_nonempty: "show_nat n \<noteq> []"
  by (subst show_nat.simps) simp

lemma show_nat_inj: "show_nat n = show_nat m \<Longrightarrow> n = m"
proof (induction n arbitrary: m rule: show_nat.induct)
  case (1 n)
  show ?case
  proof (cases "n < 10")
    case True
    then have sn: "show_nat n = [digit_char n]"
      by (simp add: show_nat.simps [of n])
    have m: "m < 10"
    proof (rule ccontr)
      assume "\<not> m < 10"
      then have "show_nat m = show_nat (m div 10) @ [digit_char m]"
        by (simp add: show_nat.simps [of m])
      with sn "1.prems" have "show_nat (m div 10) = []" by simp
      with show_nat_nonempty show False by blast
    qed
    then have "show_nat m = [digit_char m]"
      by (simp add: show_nat.simps [of m])
    with sn "1.prems" have "digit_char n = digit_char m" by simp
    then have "n mod 10 = m mod 10" by (rule digit_char_inj)
    with True m show ?thesis by simp
  next
    case False
    then have sn: "show_nat n = show_nat (n div 10) @ [digit_char n]"
      by (simp add: show_nat.simps [of n])
    have m: "\<not> m < 10"
    proof
      assume "m < 10"
      then have "show_nat m = [digit_char m]"
        by (simp add: show_nat.simps [of m])
      with sn "1.prems" have "show_nat (n div 10) = []" by simp
      with show_nat_nonempty show False by blast
    qed
    then have sm: "show_nat m = show_nat (m div 10) @ [digit_char m]"
      by (simp add: show_nat.simps [of m])
    from sn sm "1.prems" have pre: "show_nat (n div 10) = show_nat (m div 10)"
      and lst: "digit_char n = digit_char m"
      by simp_all
    from "1.IH" [OF False pre] have q: "n div 10 = m div 10" .
    from lst have r: "n mod 10 = m mod 10" by (rule digit_char_inj)
    have "n = 10 * (n div 10) + n mod 10" by simp
    also have "\<dots> = 10 * (m div 10) + m mod 10" using q r by simp
    also have "\<dots> = m" by simp
    finally show ?thesis .
  qed
qed

lemma toast_ids_of_different_clock_readings:
  "0 \<le> t1 \<Longrightarrow> 0 \<le> t2 \<Longrightarrow> t1 \<noteq> t2 \<Longrightarrow>
   ''toast-'' @ show_int t1 \<noteq> ''toast-'' @ show_int t2"
proof -
  assume a: "0 \<le> t1" "0 \<le> t2" "t1 \<noteq> t2"
  then have "nat t1 \<noteq> nat t2" by simp
  with show_nat_inj have "show_nat (nat t1) \<noteq> show_nat (nat t2)" by blast
  with a show ?thesis by (simp add: show_int_def)
qed

text \<open>
  C4 (the code departs from the claim). The claim: the ids of the toasts of one page
  session are pairwise different. Two calls of \<open>showToast\<close> at the clock reading
  1700000000000 give both toasts the id \<open>toast-1700000000000\<close>; the lookup by id then
  finds the first of them, so the second is in the container and is never shown.
\<close>

theorem toast_ids_collide_within_one_millisecond:
  "map toast_id (toasts_of
      (showToast 1700000000000 ''Error'' (Str ''Failed to update review: timeout'') ''danger''
        (showToast 1700000000000 ''Error'' (Str ''Failed to update status: timeout'') ''danger''
           example_page)))
     = [''toast-1700000000000'', ''toast-1700000000000''] \<and>
   map shown (toasts_of
      (showToast 1700000000000 ''Error'' (Str ''Failed to update review: timeout'') ''danger''
        (showToast 1700000000000 ''Error'' (Str ''Failed to update status: timeout'') ''danger''
           example_page)))
     = [True, False]"
proof -
  have "toasts_of example_page = []"
    by (simp add: example_page_def toasts_of_def)
  then show ?thesis
    by (simp add: toasts_of_showToast eval_nat)
qed

section \<open>C5: the theme switcher\<close>

text \<open>
  C5, as stated, fails: on a page whose root has no theme attribute, two clicks leave
  the attribute at \<open>light\<close>.
\<close>

theorem theme_toggle_twice_counterexample:
  "html_theme example_page = None \<and>
   html_theme (theme_switcher_click 1700000000001 (theme_switcher_click 1700000000000 example_page))
     = Some ''light''"
  by (simp add: theme_switcher_click_def example_page_def Let_def)

text \<open>
  C5, amended. When the theme attribute of the root is \<open>light\<close> or \<open>dark\<close>, two clicks
  restore it (from any other value, the absent one included, two clicks end at
  \<open>light\<close>). Each click sets the attribute to \<open>light\<close> when it was \<open>dark\<close> and to \<open>dark\<close>
  otherwise, and stores the new theme under the key \<open>theme\<close>; a reload after a click
  shows the theme of the click. On load a stored theme that is not the empty string is
  applied, and without a stored theme the page is left as it is.
\<close>

theorem theme_toggle_roundtrip_and_persistence:
  "(html_theme p \<in> {Some ''light'', Some ''dark''} \<longrightarrow>
      html_theme (theme_switcher_click t2 (theme_switcher_click t1 p)) = html_theme p) \<and>
   html_theme (theme_switcher_click t2 (theme_switcher_click t1 p)) =
     Some (if html_theme p = Some ''dark'' then ''dark'' else ''light'') \<and>
   html_theme (theme_switcher_click t1 p) =
     Some (if html_theme p = Some ''dark'' then ''light'' else ''dark'') \<and>
   localStorage (theme_switcher_click t1 p) ''theme'' = html_theme (theme_switcher_click t1 p) \<and>
   html_theme (reload fresh (theme_switcher_click t1 p)) = html_theme (theme_switcher_click t1 p) \<and>
   (localStorage p ''theme'' = Some s \<and> s \<noteq> [] \<longrightarrow>
      html_theme (load_saved_theme p) = Some s) \<and>
   (localStorage p ''theme'' = None \<longrightarrow> load_saved_theme p = p)"
  by (auto simp add: theme_switcher_click_def load_saved_theme_def reload_def Let_def)

theorem theme_toggle_roundtrip_and_persistence_witness:
  "html_theme (theme_switcher_click 1700000000001
      (theme_switcher_click 1700000000000 (example_page\<lparr>html_theme := Some ''light''\<rparr>)))
     = Some ''light'' \<and>
   html_theme (theme_switcher_click 1700000000000 (example_page\<lparr>html_theme := Some ''light''\<rparr>))
     = Some ''dark'' \<and>
   html_theme (reload example_page
      (theme_switcher_click 1700000000000 (example_page\<lparr>html_theme := Some ''light''\<rparr>)))
     = Some ''dark'' \<and>
   html_theme (load_saved_theme (example_page\<lparr>localStorage := [''theme'' \<mapsto> ''dark'']\<rparr>))
     = Some ''dark'' \<and>
   load_saved_theme example_page = example_page"
proof -
  let ?light = "example_page\<lparr>html_theme := Some ''light''\<rparr>"
  let ?stored = "example_page\<lparr>localStorage := [''theme'' \<mapsto> ''dark'']\<rparr>"
  have empty: "localStorage example_page ''theme'' = None"
    by (simp add: example_page_def)
  show ?thesis
    using theme_toggle_roundtrip_and_persistence
        [where p = ?light and ?t1.0 = 1700000000000 and ?t2.0 = 1700000000001
           and fresh = example_page and s = "''dark''"]
      theme_toggle_roundtrip_and_persistence
        [where p = ?stored and ?t1.0 = 1700000000000 and ?t2.0 = 1700000000001
           and fresh = example_page and s = "''dark''"]
      theme_toggle_roundtrip_and_persistence
        [where p = example_page and ?t1.0 = 1700000000000 and ?t2.0 = 1700000000001
           and fresh = example_page and s = "''dark''"]
    by (simp add: empty)
qed

section \<open>C6: the bulk action\<close>

text \<open>
  C6. With no bulk checkbox checked, the handler shows the warning toast and does
  nothing else: no confirmation prompt, no log line, no request. The warning is the
  toast that \<open>showToast\<close> makes; when no earlier toast has its id it is added last in
  the container and it is shown. With at least one checkbox checked, the handler asks
  one confirmation that names the action and the number of checked boxes, logs the
  action and the ids exactly when the user accepts, shows no toast and issues no
  request.
\<close>

theorem bulk_action_guard:
  "(selectedIds p = [] \<longrightarrow>
      bulk_action_click action answer now p =
        showToast now ''Warning'' (Str ''Please select items to perform this action'')
          ''warning'' p \<and>
      (''toast-'' @ show_int now \<notin> set (map toast_id (toasts_of p)) \<longrightarrow>
         toasts_of (bulk_action_click action answer now p) =
           toasts_of p @
             [\<lparr>toast_id = ''toast-'' @ show_int now, toast_title = ''Warning'',
               toast_message = ''Please select items to perform this action'',
               toast_type = ''warning'', shown = True\<rparr>]) \<and>
      confirms (bulk_action_click action answer now p) = confirms p \<and>
      console (bulk_action_click action answer now p) = console p \<and>
      requests (bulk_action_click action answer now p) = requests p) \<and>
   (selectedIds p \<noteq> [] \<longrightarrow>
      confirms (bulk_action_click action answer now p) =
        confirms p @ [''Are you sure you want to '' @ to_string action @ '' ''
                        @ show_nat (length (selectedIds p)) @ '' selected item(s)?''] \<and>
      console (bulk_action_click action answer now p) =
        (if answer
         then console p @ [(''Bulk '' @ to_string action @ '' for IDs:'', selectedIds p)]
         else console p) \<and>
      requests (bulk_action_click action answer now p) = requests p \<and>
      toasts_of (bulk_action_click action answer now p) = toasts_of p)"
proof -
  have shown_warning: "toasts_of (bulk_action_click action answer now p) =
      toasts_of p @
        [\<lparr>toast_id = ''toast-'' @ show_int now, toast_title = ''Warning'',
          toast_message = ''Please select items to perform this action'',
          toast_type = ''warning'', shown = True\<rparr>]"
    if "selectedIds p = []" "''toast-'' @ show_int now \<notin> set (map toast_id (toasts_of p))"
    using that
    by (simp add: bulk_action_click_def Let_def toasts_of_showToast getElementById_show_fresh)
  have rest: "(selectedIds p = [] \<longrightarrow>
      bulk_action_click action answer now p =
        showToast now ''Warning'' (Str ''Please select items to perform this action'')
          ''warning'' p \<and>
      confirms (bulk_action_click action answer now p) = confirms p \<and>
      console (bulk_action_click action answer now p) = console p \<and>
      requests (bulk_action_click action answer now p) = requests p) \<and>
   (selectedIds p \<noteq> [] \<longrightarrow>
      confirms (bulk_action_click action answer now p) =
        confirms p @ [''Are you sure you want to '' @ to_string action @ '' ''
                        @ show_nat (length (selectedIds p)) @ '' selected item(s)?''] \<and>
      console (bulk_action_click action answer now p) =
        (if answer
         then console p @ [(''Bulk '' @ to_string action @ '' for IDs:'', selectedIds p)]
         else console p) \<and>
      requests (bulk_action_click action answer now p) = requests p \<and>
      toasts_of (bulk_action_click action answer now p) = toasts_of p)"
    by (simp add: bulk_action_click_def Let_def toasts_of_def)
  from shown_warning rest show ?thesis by blast
qed

theorem bulk_action_guard_witness:
  "selectedIds (example_page\<lparr>bulk_selects := [\<lparr>bulk_checked = False, bulk_value = ''4''\<rparr>]\<rparr>) = [] \<and>
   toasts_of (bulk_action_click (Str ''delete'') True 1700000000000
      (example_page\<lparr>bulk_selects := [\<lparr>bulk_checked = False, bulk_value = ''4''\<rparr>]\<rparr>)) =
     [\<lparr>toast_id = ''toast-1700000000000'', toast_title = ''Warning'',
       toast_message = ''Please select items to perform this action'',
       toast_type = ''warning'', shown = True\<rparr>] \<and>
   confirms (bulk_action_click (Str ''delete'') True 1700000000000
      (example_page\<lparr>bulk_selects := [\<lparr>bulk_checked = False, bulk_value = ''4''\<rparr>]\<rparr>)) = [] \<and>
   console (bulk_action_click (Str ''delete'') True 1700000000000
      (example_page\<lparr>bulk_selects := [\<lparr>bulk_checked = False, bulk_value = ''4''\<rparr>]\<rparr>)) = [] \<and>
   requests (bulk_action_click (Str ''delete'') True 1700000000000
      (example_page\<lparr>bulk_selects := [\<lparr>bulk_checked = False, bulk_value = ''4''\<rparr>]\<rparr>)) = [] \<and>
   selectedIds example_page = [''3'', ''5''] \<and>
   confirms (bulk_action_click (Str ''delete'') True 1700000000000 example_page) =
     [''Are you sure you want to delete 2 selected item(s)?''] \<and>
   console (bulk_action_click (Str ''delete'') True 1700000000000 example_page) =
     [(''Bulk delete for IDs:'', [''3'', ''5''])] \<and>
   console (bulk_action_click (Str ''delete'') False 1700000000000 example_page) = [] \<and>
   requests (bulk_action_click (Str ''delete'') True 1700000000000 example_page) = [] \<and>
   toasts_of (bulk_action_click (Str ''delete'') True 1700000000000 example_page) = []"
proof -
  let ?q = "example_page\<lparr>bulk_selects := [\<lparr>bulk_checked = False, bulk_value = ''4''\<rparr>]\<rparr>"
  have none: "selectedIds ?q = []"
    by (simp add: selectedIds_def)
  have some: "selectedIds example_page = [''3'', ''5'']"
    by (simp add: selectedIds_def example_page_def)
  have base: "confirms example_page = []" "console example_page = []"
    "requests example_page = []" "toasts_of example_page = []" "toasts_of ?q = []"
    "confirms ?q = []" "console ?q = []" "requests ?q = []"
    by (simp_all add: example_page_def toasts_of_def)
  have two: "show_nat (Suc (Suc 0)) = ''2''"
    by (simp add: show_nat.simps digit_char_def)
  have clock: "show_int 1700000000000 = ''1700000000000''"
    by (simp add: eval_nat)
  from none
    bulk_action_guard [where p = ?q and action = "Str ''delete''" and answer = True
      and now = 1700000000000]
  have "(''toast-'' @ show_int 1700000000000 \<notin> set (map toast_id (toasts_of ?q)) \<longrightarrow>
         toasts_of (bulk_action_click (Str ''delete'') True 1700000000000 ?q) =
           toasts_of ?q @
             [\<lparr>toast_id = ''toast-'' @ show_int 1700000000000, toast_title = ''Warning'',
               toast_message = ''Please select items to perform this action'',
               toast_type = ''warning'', shown = True\<rparr>]) \<and>
      confirms (bulk_action_click (Str ''delete'') True 1700000000000 ?q) = confirms ?q \<and>
      console (bulk_action_click (Str ''delete'') True 1700000000000 ?q) = console ?q \<and>
      requests (bulk_action_click (Str ''delete'') True 1700000000000 ?q) = requests ?q"
    by blast
  then have empty_case:
    "toasts_of (bulk_action_click (Str ''delete'') True 1700000000000 ?q) =
       [\<lparr>toast_id = ''toast-1700000000000'', toast_title = ''Warning'',
         toast_message = ''Please select items to perform this action'',
         toast_type = ''warning'', shown = True\<rparr>] \<and>
     confirms (bulk_action_click (Str ''delete'') True 1700000000000 ?q) = [] \<and>
     console (bulk_action_click (Str ''delete'') True 1700000000000 ?q) = [] \<and>
     requests (bulk_action_click (Str ''delete'') True 1700000000000 ?q) = []"
    by (simp add: base clock)
  have chosen_case:
    "confirms (bulk_action_click (Str ''delete'') True 1700000000000 example_page) =
       [''Are you sure you want to delete 2 selected item(s)?''] \<and>
     console (bulk_action_click (Str ''delete'') True 1700000000000 example_page) =
       [(''Bulk delete for IDs:'', [''3'', ''5''])] \<and>
     console (bulk_action_click (Str ''delete'') False 1700000000000 example_page) = [] \<and>
     requests (bulk_action_click (Str ''delete'') True 1700000000000 example_page) = [] \<and>
     toasts_of (bulk_action_click (Str ''delete'') True 1700000000000 example_page) = []"
    using bulk_action_guard [where p = example_page and action = "Str ''delete''"
        and answer = True and now = 1700000000000]
      bulk_action_guard [where p = example_page and action = "Str ''delete''"
        and answer = False and now = 1700000000000]
    by (simp add: some base two)
  from none some empty_case chosen_case show ?thesis
    by simp
qed

section \<open>C7: the notification of a failure\<close>

text \<open>
  C7, as stated, fails: a rejection that carries no message is notified with the text
  \<open>undefined\<close>, not with a generic failure string; a failed tick of the statistics
  refresh is not notified at all; and an export whose payload is a rejection is
  notified as a success.
\<close>

theorem failure_notification_counterexample:
  "map toast_message (toasts_of (toggle_active_interaction 1700000000000
      (Ajax_success \<lparr>success = Bool False, new_status = Undefined, message = Undefined\<rparr>)
      example_page)) = [''undefined''] \<and>
   updateDashboardStats_done int_format (Ajax_error ''timeout'') example_page = Inr example_page \<and>
   updateDashboardStats_done int_format
      (Ajax_success \<lparr>stats_success = Bool False, stats = None\<rparr>) example_page
     = Inr example_page \<and>
   map toast_title (toasts_of (export_interaction (Str ''orders'') (Str ''/export'')
      1700000000000 1700000000500
      (Ajax_success \<lparr>success = Bool False, new_status = Undefined, message = Str ''locked''\<rparr>)
      example_page)) = [''Info'', ''Success'']"
proof -
  have none: "toasts_of example_page = []"
    by (simp add: example_page_def toasts_of_def)
  have no_message: "map toast_message (toasts_of (toggle_active_interaction 1700000000000
      (Ajax_success \<lparr>success = Bool False, new_status = Undefined, message = Undefined\<rparr>)
      example_page)) = [''undefined'']"
    using none
    by (simp add: toggle_active_interaction_def toggle_active_change_def
        toggle_active_success_def user_toggles_active_def toasts_of_showToast Let_def)
  have export: "map toast_title (toasts_of (export_interaction (Str ''orders'') (Str ''/export'')
      1700000000000 1700000000500
      (Ajax_success \<lparr>success = Bool False, new_status = Undefined, message = Str ''locked''\<rparr>)
      example_page)) = [''Info'', ''Success'']"
    using none
    by (simp add: export_interaction_def export_data_click_def export_data_success_def
        toasts_of_showToast Let_def)
  from no_message export show ?thesis
    by (simp add: updateDashboardStats_done_def)
qed

text \<open>
  C7, amended. For the status update and the two toggles, a response whose \<open>success\<close> is
  not truthy adds one toast with title \<open>Error\<close>, type \<open>danger\<close> and, as message, the
  \<open>message\<close> field of the response rendered as a string; a failure of the request adds
  one toast with title \<open>Error\<close>, type \<open>danger\<close> and, as message, the fixed prefix of the
  handler followed by the error text of the request. A failed export request adds one
  such toast with the prefix \<open>Export failed: \<close>. A failed statistics request adds none.
\<close>

theorem failure_notifications:
  "(\<not> truthy (success r) \<longrightarrow>
      (\<exists>p'. update_status_interaction v now (Ajax_success r) p = Inr p' \<and>
            notified p p' ''Error'' (to_string (message r)) ''danger'') \<and>
      notified p (toggle_active_interaction now (Ajax_success r) p)
        ''Error'' (to_string (message r)) ''danger'' \<and>
      notified p (toggle_approval_interaction now (Ajax_success r) p)
        ''Error'' (to_string (message r)) ''danger'') \<and>
   (\<exists>p'. update_status_interaction v now (Ajax_error err) p = Inr p' \<and>
         notified p p' ''Error'' (''Failed to update status: '' @ err) ''danger'') \<and>
   notified p (toggle_active_interaction now (Ajax_error err) p)
     ''Error'' (''Failed to update user status: '' @ err) ''danger'' \<and>
   notified p (toggle_approval_interaction now (Ajax_error err) p)
     ''Error'' (''Failed to update review: '' @ err) ''danger'' \<and>
   notified (export_data_click ty u t_click p)
     (export_interaction ty u t_click now (Ajax_error err) p)
     ''Error'' (''Export failed: '' @ err) ''danger'' \<and>
   (\<exists>p'. updateDashboardStats_done fmt (Ajax_error err) (updateDashboardStats p) = Inr p' \<and>
         toasts_of p' = toasts_of p)"
proof -
  have rejected_status: "\<exists>p'. update_status_interaction v now (Ajax_success r) p = Inr p' \<and>
      notified p p' ''Error'' (to_string (message r)) ''danger''"
    if "\<not> truthy (success r)"
    using that
    by (simp add: update_status_interaction_def update_status_change_def
        update_status_success_def user_selects_def Let_def
        notified_cong [OF toasts_of_val_set] notified_showToast)
  have rejected_active: "notified p (toggle_active_interaction now (Ajax_success r) p)
      ''Error'' (to_string (message r)) ''danger''"
    if "\<not> truthy (success r)"
    using that
    by (simp add: toggle_active_interaction_def toggle_active_change_def
        toggle_active_success_def user_toggles_active_def Let_def
        notified_cong [OF toasts_of_prop_checked(1)] notified_showToast)
  have rejected_approval: "notified p (toggle_approval_interaction now (Ajax_success r) p)
      ''Error'' (to_string (message r)) ''danger''"
    if "\<not> truthy (success r)"
    using that
    by (simp add: toggle_approval_interaction_def toggle_approval_change_def
        toggle_approval_success_def user_toggles_approval_def Let_def
        notified_cong [OF toasts_of_prop_checked(2)] notified_showToast)
  have failed_status: "\<exists>p'. update_status_interaction v now (Ajax_error err) p = Inr p' \<and>
      notified p p' ''Error'' (''Failed to update status: '' @ err) ''danger''"
    using notified_showToast [where msg = "Str (''Failed to update status: '' @ err)"]
    by (simp add: update_status_interaction_def update_status_change_def
        update_status_error_def user_selects_def Let_def
        notified_cong [OF toasts_of_update(3)] notified_cong [OF toasts_of_val_set])
  have failed_active: "notified p (toggle_active_interaction now (Ajax_error err) p)
      ''Error'' (''Failed to update user status: '' @ err) ''danger''"
    using notified_showToast [where msg = "Str (''Failed to update user status: '' @ err)"]
    by (simp add: toggle_active_interaction_def toggle_active_change_def
        toggle_active_error_def user_toggles_active_def Let_def
        notified_cong [OF toasts_of_prop_checked(1)])
  have failed_approval: "notified p (toggle_approval_interaction now (Ajax_error err) p)
      ''Error'' (''Failed to update review: '' @ err) ''danger''"
    using notified_showToast [where msg = "Str (''Failed to update review: '' @ err)"]
    by (simp add: toggle_approval_interaction_def toggle_approval_change_def
        toggle_approval_error_def user_toggles_approval_def Let_def
        notified_cong [OF toasts_of_prop_checked(2)])
  have failed_export: "notified (export_data_click ty u t_click p)
      (export_interaction ty u t_click now (Ajax_error err) p)
      ''Error'' (''Export failed: '' @ err) ''danger''"
    using notified_showToast [where msg = "Str (''Export failed: '' @ err)"]
    by (simp add: export_interaction_def export_data_error_def Let_def)
  have stats_silent: "\<exists>p'. updateDashboardStats_done fmt (Ajax_error err)
      (updateDashboardStats p) = Inr p' \<and> toasts_of p' = toasts_of p"
    by (simp add: updateDashboardStats_done_def updateDashboardStats_def)
  from rejected_status rejected_active rejected_approval failed_status failed_active
    failed_approval failed_export stats_silent
  show ?thesis by blast
qed

theorem failure_notifications_witness:
  "\<exists>p'. update_status_interaction ''delivered'' 1700000000000
          (Ajax_success \<lparr>success = Bool False, new_status = Undefined, message = Str ''locked''\<rparr>)
          example_page = Inr p' \<and>
        map toast_title (toasts_of p') = [''Error''] \<and>
        map toast_message (toasts_of p') = [''locked''] \<and>
        map toast_type (toasts_of p') = [''danger'']"
proof -
  let ?r = "\<lparr>success = Bool False, new_status = Undefined, message = Str ''locked''\<rparr>"
  have none: "toasts_of example_page = []"
    by (simp add: example_page_def toasts_of_def)
  have rejected: "\<not> truthy (success ?r)"
    by simp
  from rejected
    failure_notifications
      [where r = ?r and p = example_page and v = "''delivered''" and now = 1700000000000
         and err = "''timeout''" and ty = "Str ''orders''" and u = "Str ''/export''"
         and t_click = 1700000000000 and fmt = int_format]
  obtain p' where
    "update_status_interaction ''delivered'' 1700000000000 (Ajax_success ?r) example_page = Inr p'"
    "notified example_page p' ''Error'' (to_string (message ?r)) ''danger''"
    by blast
  then show ?thesis
    by (simp add: notified_def none)
qed

section \<open>C8: the statistics refresh\<close>

lemma stats_success_updates:
  "truthy (stats_success r) \<Longrightarrow> stats r = Some s \<Longrightarrow>
   \<exists>p'. updateDashboardStats_done fmt (Ajax_success r) p = Inr p' \<and>
     stat_orders p' = plain fmt (order_count s) \<and>
     stat_revenue p' = rupee @ toLocaleString_en_IN fmt (revenue s) \<and>
     stat_avg_order p' = rupee @ toFixed2 fmt (avg_order_value s) \<and>
     stat_customers p' = plain fmt (new_customers s)"
  by (simp add: updateDashboardStats_done_def updateStatsDisplay_def)

text \<open>
  On whole numbers: the response \<^verbatim>\<open>{success: true, stats: {order_count: 15, revenue: 1234567,
  avg_order_value: 82304, new_customers: 4}}\<close> is displayed as 15, 12,34,567 and 82304.00 after
  the rupee sign, and 4.
\<close>

lemma stats_scenario_whole_numbers:
  "\<exists>p'. updateDashboardStats_done int_format
          (Ajax_success \<lparr>stats_success = Bool True,
             stats = Some \<lparr>order_count = 15, revenue = 1234567, avg_order_value = 82304,
                            new_customers = 4\<rparr>\<rparr>) example_page = Inr p' \<and>
        stat_orders p' = ''15'' \<and>
        stat_revenue p' = rupee @ ''12,34,567'' \<and>
        stat_avg_order p' = rupee @ ''82304.00'' \<and>
        stat_customers p' = ''4''"
  by (simp add: updateDashboardStats_done_def updateStatsDisplay_def int_format_def
      en_IN_digits_def eval_nat)

text \<open>
  C8. When a tick of the statistics refresh fails, by a response whose \<open>success\<close> is
  not truthy or by a failure of the request, the page afterwards is the page before:
  no toast is added and none of the four statistics slots changes. Issuing the request
  of a tick changes neither.
\<close>

theorem stats_refresh_failure_is_silent:
  "(\<not> truthy (stats_success r) \<longrightarrow>
      updateDashboardStats_done fmt (Ajax_success r) p = Inr p) \<and>
   updateDashboardStats_done fmt (Ajax_error err) p = Inr p \<and>
   toasts_of (updateDashboardStats p) = toasts_of p \<and>
   stat_orders (updateDashboardStats p) = stat_orders p \<and>
   stat_revenue (updateDashboardStats p) = stat_revenue p \<and>
   stat_avg_order (updateDashboardStats p) = stat_avg_order p \<and>
   stat_customers (updateDashboardStats p) = stat_customers p"
  by (simp add: updateDashboardStats_done_def updateDashboardStats_def toasts_of_def)

theorem stats_refresh_failure_is_silent_witness:
  "updateDashboardStats_done int_format
     (Ajax_success \<lparr>stats_success = Bool False, stats = None\<rparr>) example_page
     = Inr example_page \<and>
   updateDashboardStats_done int_format
     (Ajax_success \<lparr>stats_success = Undefined,
        stats = Some \<lparr>order_count = 12, revenue = 45000, avg_order_value = 3750,
                       new_customers = 3\<rparr>\<rparr>)
     example_page = Inr example_page \<and>
   updateDashboardStats_done int_format (Ajax_error ''timeout'') example_page
     = Inr example_page"
  using stats_refresh_failure_is_silent
      [where r = "\<lparr>stats_success = Bool False, stats = None\<rparr>" and p = example_page
         and fmt = int_format and err = "''timeout''"]
    stats_refresh_failure_is_silent
      [where r = "\<lparr>stats_success = Undefined,
        stats = Some \<lparr>order_count = 12, revenue = 45000, avg_order_value = 3750,
                       new_customers = 3\<rparr>\<rparr>"
        and p = example_page and fmt = int_format and err = "''timeout''"]
  by simp

section \<open>C9: the name of the exported file\<close>

text \<open>
  C9, as stated, fails: the date of the file name is read when the response arrives,
  not at the click. A click at 2024-01-01T23:59:59.900Z answered 200 milliseconds later
  names the file after 2 January.
\<close>

theorem export_filename_date_counterexample:
  "take 10 (toISOString 1704153599900) = ''2024-01-01'' \<and>
   downloads (export_interaction (Str ''orders'') (Str ''/dashboard/orders/export'')
      1704153599900 1704153600100 (Ajax_success ()) example_page)
     = [''export_orders_2024-01-02.csv'']"
proof -
  have click: "take 10 (toISOString 1704153599900) = ''2024-01-01''"
    by (simp add: iso_defs)
  have resp: "take 10 (toISOString 1704153600100) = ''2024-01-02''"
    by (simp add: iso_defs)
  have "downloads example_page = []"
    by (simp add: example_page_def)
  then have "downloads (export_interaction (Str ''orders'') (Str ''/dashboard/orders/export'')
      1704153599900 1704153600100 (Ajax_success ()) example_page)
     = [''export_orders_2024-01-02.csv'']"
    by (simp add: export_interaction_def export_data_click_def export_data_success_def
        export_filename_def resp Let_def)
  with click show ?thesis by simp
qed

text \<open>
  C9, amended. For every export whose request succeeds, with the UTC year at the time
  the response is handled between 0 and 9999, the file offered for download is named
  \<open>export_\<close>, the \<open>data('type')\<close> of the clicked element, \<open>_\<close>, four digits of that year,
  \<open>-\<close>, two digits of the month, \<open>-\<close>, two digits of the day, \<open>.csv\<close>: the UTC date at the
  time the response is handled. The click itself and a failed request offer no file.
\<close>

theorem export_filename_at_response_time:
  "(0 \<le> utc_year t_done \<and> utc_year t_done \<le> 9999 \<longrightarrow>
      downloads (export_interaction ty u t_click t_done (Ajax_success (blob :: 'b)) p) =
        downloads p @
          [''export_'' @ to_string ty @ ''_'' @ digits4 (utc_year t_done) @ ''-''
             @ digits2 (utc_month t_done) @ ''-'' @ digits2 (utc_date t_done) @ ''.csv'']) \<and>
   set (digits4 (utc_year t_done) @ digits2 (utc_month t_done) @ digits2 (utc_date t_done))
     \<subseteq> set ''0123456789'' \<and>
   downloads (export_data_click ty u t_click p) = downloads p \<and>
   downloads (export_interaction ty u t_click t_done (Ajax_error err :: 'b ajax_outcome) p) = downloads p"
proof -
  have name: "downloads (export_interaction ty u t_click t_done (Ajax_success (blob :: 'b)) p) =
        downloads p @
          [''export_'' @ to_string ty @ ''_'' @ digits4 (utc_year t_done) @ ''-''
             @ digits2 (utc_month t_done) @ ''-'' @ digits2 (utc_date t_done) @ ''.csv'']"
    if "0 \<le> utc_year t_done" "utc_year t_done \<le> 9999"
    using take_iso_date [OF that]
    by (simp add: export_interaction_def export_data_click_def export_data_success_def
        export_filename_def Let_def)
  have digits: "set (digits4 (utc_year t_done) @ digits2 (utc_month t_done)
      @ digits2 (utc_date t_done)) \<subseteq> set ''0123456789''"
    using digit_char_is_digit by (simp add: digits2_def digits3_def digits4_def)
  have rest: "downloads (export_data_click ty u t_click p) = downloads p"
    "downloads (export_interaction ty u t_click t_done (Ajax_error err :: 'b ajax_outcome) p) = downloads p"
    by (simp_all add: export_interaction_def export_data_click_def export_data_error_def Let_def)
  from name digits rest show ?thesis by blast
qed

theorem export_filename_at_response_time_witness:
  "0 \<le> utc_year 1704153600100 \<and> utc_year 1704153600100 \<le> 9999 \<and>
   downloads (export_interaction (Str ''orders'') (Str ''/dashboard/orders/export'')
      1704153599900 1704153600100 (Ajax_success ()) example_page)
     = [''export_orders_2024-01-02.csv'']"
proof -
  have y: "utc_year 1704153600100 = 2024" and m: "utc_month 1704153600100 = 1"
    and d: "utc_date 1704153600100 = 2"
    by (simp_all add: iso_defs)
  have digs: "digits4 2024 = ''2024''" "digits2 1 = ''01''" "digits2 2 = ''02''"
    by (simp_all add: iso_defs)
  have "downloads example_page = []"
    by (simp add: example_page_def)
  then show ?thesis
    using export_filename_at_response_time
      [where t_done = 1704153600100 and t_click = 1704153599900 and ty = "Str ''orders''"
         and u = "Str ''/dashboard/orders/export''" and blob = "()" and p = example_page
         and err = "''timeout''"]
    by (simp add: y m d digs)
qed

section \<open>C10: the formats of \<open>getTimeAgo\<close>\<close>

lemma ago_suffix_neq:
  "c \<noteq> c' \<Longrightarrow> xs @ c # '' ago'' \<noteq> ys @ c' # '' ago''"
  by simp

lemma mo_ago_neq:
  assumes "c \<noteq> CHR ''o''"
  shows "xs @ ''mo ago'' \<noteq> ys @ c # '' ago''"
proof -
  have "(xs @ ''m'') @ ''o ago'' \<noteq> ys @ c # '' ago''"
    using assms by (simp del: append_assoc)
  then show ?thesis by simp
qed

lemma just_now_neq:
  "''just now'' \<noteq> ys @ c # '' ago''"
proof -
  have "''jus'' @ ''t now'' \<noteq> ys @ c # '' ago''"
    by (simp del: append_Cons append_Nil)
  then show ?thesis by simp
qed

lemma just_now_neq_mo:
  "''just now'' \<noteq> ys @ ''mo ago''"
  using just_now_neq [of "ys @ ''m''" "CHR ''o''"] by simp

lemma format_neq:
  "a @ ''m ago'' \<noteq> b @ ''h ago''"
  "a @ ''m ago'' \<noteq> b @ ''d ago''"
  "a @ ''m ago'' \<noteq> b @ ''y ago''"
  "a @ ''h ago'' \<noteq> b @ ''d ago''"
  "a @ ''h ago'' \<noteq> b @ ''y ago''"
  "a @ ''d ago'' \<noteq> b @ ''y ago''"
  "a @ ''mo ago'' \<noteq> b @ ''m ago''"
  "''just now'' \<noteq> b @ ''m ago''"
  "a @ ''mo ago'' \<noteq> b @ ''h ago''"
  "''just now'' \<noteq> b @ ''h ago''"
  "a @ ''mo ago'' \<noteq> b @ ''d ago''"
  "''just now'' \<noteq> b @ ''d ago''"
  "a @ ''mo ago'' \<noteq> b @ ''y ago''"
  "''just now'' \<noteq> b @ ''y ago''"
  "''just now'' \<noteq> b @ ''mo ago''"
  by (simp_all add: mo_ago_neq just_now_neq just_now_neq_mo)

text \<open>
  C10. For a valid date, with \<open>seconds\<close> the whole seconds elapsed and \<open>minutes\<close>,
  \<open>hours\<close>, \<open>days\<close>, \<open>months\<close>, \<open>years\<close> the successive quotients by 60, 60, 24, 30
  and 12, \<open>getTimeAgo\<close> returns \<open>just now\<close> exactly when \<open>seconds < 60\<close>; the minutes
  format exactly when \<open>60 \<le> seconds\<close> and \<open>minutes < 60\<close>; the hours format exactly when
  \<open>60 \<le> minutes\<close> and \<open>hours < 24\<close>; the days format exactly when \<open>24 \<le> hours\<close> and
  \<open>days < 30\<close>; the months format exactly when \<open>30 \<le> days\<close> and \<open>months < 12\<close>; and the
  years format exactly when \<open>12 \<le> months\<close>. The six conditions exclude one another and
  one of them holds, so exactly one format is returned. The number written in a format
  is the quotient in decimal digits: from 60 seconds on, the digits written for
  \<open>minutes\<close>, \<open>hours\<close>, \<open>days\<close>, \<open>months\<close> and \<open>years\<close> read back as these numbers.
  (A date in the future has negative \<open>seconds\<close> and falls under \<open>just now\<close>.)
\<close>

theorem getTimeAgo_format:
  "(let seconds = (now - d) div 1000;
        minutes = seconds div 60;
        hours = minutes div 60;
        days = hours div 24;
        months = days div 30;
        years = months div 12;
        result = getTimeAgo (Some d) now
    in (result = ''just now'') = (seconds < 60) \<and>
       (result = show_int minutes @ ''m ago'') = (60 \<le> seconds \<and> minutes < 60) \<and>
       (result = show_int hours @ ''h ago'') = (60 \<le> minutes \<and> hours < 24) \<and>
       (result = show_int days @ ''d ago'') = (24 \<le> hours \<and> days < 30) \<and>
       (result = show_int months @ ''mo ago'') = (30 \<le> days \<and> months < 12) \<and>
       (result = show_int years @ ''y ago'') = (12 \<le> months) \<and>
       (60 \<le> seconds \<longrightarrow>
          decimal_value (show_int minutes) = nat minutes \<and>
          decimal_value (show_int hours) = nat hours \<and>
          decimal_value (show_int days) = nat days \<and>
          decimal_value (show_int months) = nat months \<and>
          decimal_value (show_int years) = nat years))"
proof -
  define seconds where "seconds = (now - d) div 1000"
  define minutes where "minutes = seconds div 60"
  define hours where "hours = minutes div 60"
  define days where "days = hours div 24"
  define months where "months = days div 30"
  define years where "years = months div 12"
  note defs = seconds_def minutes_def hours_def days_def months_def years_def
  have c1: "seconds < 60 \<Longrightarrow> minutes < 60"
    unfolding minutes_def by linarith
  have c2: "minutes < 60 \<Longrightarrow> hours < 24"
    unfolding hours_def by linarith
  have c3: "hours < 24 \<Longrightarrow> days < 30"
    unfolding days_def by linarith
  have c4: "days < 30 \<Longrightarrow> months < 12"
    unfolding months_def by linarith
  have u1: "60 \<le> minutes \<Longrightarrow> 60 \<le> seconds"
    using c1 by force
  have u2: "24 \<le> hours \<Longrightarrow> 60 \<le> minutes"
    using c2 by force
  have u3: "30 \<le> days \<Longrightarrow> 24 \<le> hours"
    using c3 by force
  have u4: "12 \<le> months \<Longrightarrow> 30 \<le> days"
    using c4 by force
  have res: "getTimeAgo (Some d) now =
      (if seconds < 60 then ''just now''
       else if minutes < 60 then show_int minutes @ ''m ago''
       else if hours < 24 then show_int hours @ ''h ago''
       else if days < 30 then show_int days @ ''d ago''
       else if months < 12 then show_int months @ ''mo ago''
       else show_int years @ ''y ago'')"
    by (simp only: getTimeAgo_def Let_def defs option.case)
  note neqs = format_neq format_neq [symmetric]
  consider (just_now) "seconds < 60"
    | (minutes) "60 \<le> seconds" "minutes < 60"
    | (hours) "60 \<le> minutes" "hours < 24"
    | (days) "24 \<le> hours" "days < 30"
    | (months) "30 \<le> days" "months < 12"
    | (years) "12 \<le> months"
    by linarith
  then have "(getTimeAgo (Some d) now = ''just now'') = (seconds < 60) \<and>
       (getTimeAgo (Some d) now = show_int minutes @ ''m ago'') = (60 \<le> seconds \<and> minutes < 60) \<and>
       (getTimeAgo (Some d) now = show_int hours @ ''h ago'') = (60 \<le> minutes \<and> hours < 24) \<and>
       (getTimeAgo (Some d) now = show_int days @ ''d ago'') = (24 \<le> hours \<and> days < 30) \<and>
       (getTimeAgo (Some d) now = show_int months @ ''mo ago'') = (30 \<le> days \<and> months < 12) \<and>
       (getTimeAgo (Some d) now = show_int years @ ''y ago'') = (12 \<le> months)"
  proof cases
    case just_now
    then have "minutes < 60" "hours < 24" "days < 30" "months < 12"
      by (simp_all add: c1 c2 c3 c4)
    with just_now show ?thesis by (simp add: res neqs)
  next
    case minutes
    then have "hours < 24" "days < 30" "months < 12" "\<not> seconds < 60"
      by (simp_all add: c2 c3 c4)
    with minutes show ?thesis by (simp add: res neqs)
  next
    case hours
    then have "days < 30" "months < 12" "60 \<le> seconds"
      by (simp_all add: c3 c4 u1)
    with hours have "days < 30" "months < 12" "\<not> seconds < 60" "\<not> minutes < 60"
      by simp_all
    with hours show ?thesis by (simp add: res neqs)
  next
    case days
    then have "months < 12" "60 \<le> minutes" "60 \<le> seconds"
      by (simp_all add: c4 u1 u2)
    with days have "months < 12" "\<not> seconds < 60" "\<not> minutes < 60" "\<not> hours < 24"
      by simp_all
    with days show ?thesis by (simp add: res neqs)
  next
    case months
    then have "24 \<le> hours" "60 \<le> minutes" "60 \<le> seconds"
      by (simp_all add: u1 u2 u3)
    with months have "\<not> seconds < 60" "\<not> minutes < 60" "\<not> hours < 24" "\<not> days < 30"
      by simp_all
    with months show ?thesis by (simp add: res neqs)
  next
    case years
    then have "30 \<le> days" "24 \<le> hours" "60 \<le> minutes" "60 \<le> seconds"
      by (simp_all add: u1 u2 u3 u4)
    with years have "\<not> seconds < 60" "\<not> minutes < 60" "\<not> hours < 24" "\<not> days < 30"
      "\<not> months < 12"
      by simp_all
    with years show ?thesis by (simp add: res neqs)
  qed
  moreover have "60 \<le> seconds \<longrightarrow>
      decimal_value (show_int minutes) = nat minutes \<and>
      decimal_value (show_int hours) = nat hours \<and>
      decimal_value (show_int days) = nat days \<and>
      decimal_value (show_int months) = nat months \<and>
      decimal_value (show_int years) = nat years"
  proof
    assume "60 \<le> seconds"
    then have "0 \<le> minutes" unfolding minutes_def by linarith
    then have "0 \<le> hours" unfolding hours_def by linarith
    then have "0 \<le> days" unfolding days_def by linarith
    then have "0 \<le> months" unfolding months_def by linarith
    then have "0 \<le> years" unfolding years_def by linarith
    from \<open>0 \<le> minutes\<close> \<open>0 \<le> hours\<close> \<open>0 \<le> days\<close> \<open>0 \<le> months\<close> \<open>0 \<le> years\<close>
    show "decimal_value (show_int minutes) = nat minutes \<and>
      decimal_value (show_int hours) = nat hours \<and>
      decimal_value (show_int days) = nat days \<and>
      decimal_value (show_int months) = nat months \<and>
      decimal_value (show_int years) = nat years"
      by (simp add: decimal_value_nonneg)
  qed
  ultimately have "((getTimeAgo (Some d) now = ''just now'') = (seconds < 60) \<and>
       (getTimeAgo (Some d) now = show_int minutes @ ''m ago'') = (60 \<le> seconds \<and> minutes < 60) \<and>
       (getTimeAgo (Some d) now = show_int hours @ ''h ago'') = (60 \<le> minutes \<and> hours < 24) \<and>
       (getTimeAgo (Some d) now = show_int days @ ''d ago'') = (24 \<le> hours \<and> days < 30) \<and>
       (getTimeAgo (Some d) now = show_int months @ ''mo ago'') = (30 \<le> days \<and> months < 12) \<and>
       (getTimeAgo (Some d) now = show_int years @ ''y ago'') = (12 \<le> months) \<and>
       (60 \<le> seconds \<longrightarrow>
          decimal_value (show_int minutes) = nat minutes \<and>
          decimal_value (show_int hours) = nat hours \<and>
          decimal_value (show_int days) = nat days \<and>
          decimal_value (show_int months) = nat months \<and>
          decimal_value (show_int years) = nat years))"
    by blast
  then show ?thesis
    unfolding defs Let_def .
qed

theorem getTimeAgo_format_witness:
  "getTimeAgo (Some 1700000000000) 1700000059999 = ''just now'' \<and>
   getTimeAgo (Some 1700000000000) 1700000300000 = ''5m ago'' \<and>
   getTimeAgo (Some 1700000000000) 1700082800000 = ''23h ago'' \<and>
   getTimeAgo (Some 1700000000000) 1702505600000 = ''29d ago'' \<and>
   getTimeAgo (Some 1700000000000) 1731017600000 = ''11mo ago'' \<and>
   getTimeAgo (Some 1700000000000) 2015360000000 = ''10y ago'' \<and>
   (60::int) \<le> (1700000300000 - 1700000000000) div 1000 \<and>
   decimal_value ''5'' = 5"
proof -
  note just_now = getTimeAgo_format
    [where d = 1700000000000 and now = 1700000059999, unfolded Let_def, THEN conjunct1]
  note minutes = getTimeAgo_format
    [where d = 1700000000000 and now = 1700000300000, unfolded Let_def,
      THEN conjunct2, THEN conjunct1]
  note hours = getTimeAgo_format
    [where d = 1700000000000 and now = 1700082800000, unfolded Let_def,
      THEN conjunct2, THEN conjunct2, THEN conjunct1]
  note days = getTimeAgo_format
    [where d = 1700000000000 and now = 1702505600000, unfolded Let_def,
      THEN conjunct2, THEN conjunct2, THEN conjunct2, THEN conjunct1]
  note months = getTimeAgo_format
    [where d = 1700000000000 and now = 1731017600000, unfolded Let_def,
      THEN conjunct2, THEN conjunct2, THEN conjunct2, THEN conjunct2, THEN conjunct1]
  note years = getTimeAgo_format
    [where d = 1700000000000 and now = 2015360000000, unfolded Let_def,
      THEN conjunct2, THEN conjunct2, THEN conjunct2, THEN conjunct2, THEN conjunct2,
      THEN conjunct1]
  note written = getTimeAgo_format
    [where d = 1700000000000 and now = 1700000300000, unfolded Let_def,
      THEN conjunct2, THEN conjunct2, THEN conjunct2, THEN conjunct2, THEN conjunct2,
      THEN conjunct2, THEN mp, THEN conjunct1]
  have elapsed: "(60::int) \<le> (1700000300000 - 1700000000000) div 1000"
    by simp
  have digits: "show_int 5 = ''5''" "show_int 23 = ''23''" "show_int 29 = ''29''"
    "show_int 11 = ''11''" "show_int 10 = ''10''"
    by (simp_all add: eval_nat)
  have j: "getTimeAgo (Some 1700000000000) 1700000059999 = ''just now''"
    using just_now by simp
  have m: "getTimeAgo (Some 1700000000000) 1700000300000 = ''5m ago''"
    using minutes by (simp add: digits)
  have h: "getTimeAgo (Some 1700000000000) 1700082800000 = ''23h ago''"
    using hours by (simp add: digits)
  have d: "getTimeAgo (Some 1700000000000) 1702505600000 = ''29d ago''"
    using days by (simp add: digits)
  have mo: "getTimeAgo (Some 1700000000000) 1731017600000 = ''11mo ago''"
    using months by (simp add: digits)
  have y: "getTimeAgo (Some 1700000000000) 2015360000000 = ''10y ago''"
    using years by (simp add: digits)
  have w: "decimal_value ''5'' = 5"
    using written [OF elapsed] by (simp add: digits)
  from j m h d mo y elapsed w show ?thesis
    by blast
qed

end
